theory Spec2Isabelle
  imports Complex_Main "HOL-Library.Word"
begin

section \<open>Data model\<close>

text \<open>
  The memo pipeline of the backend: the memo service (\<open>memo.service.ts\<close>), the two
  BullMQ workers (\<open>transcription.worker.ts\<close>, \<open>memo-generation.worker.ts\<close>), the queue
  helpers (\<open>jobs/queue.ts\<close>) and the two memo routes that create a memo and upload its
  audio. The database, the object store and the two queues are one explicit state, every
  operation takes it and returns it updated, and every \<open>throw\<close> is an \<open>Inl\<close>.
  Calls run one after the other: interleavings of concurrent requests, and connection
  failures of the database and of Redis, are outside the model.
\<close>

type_synonym memo_id = string
type_synonym user_id = string
type_synonym buffer = "8 word list"

text \<open>
  A transcript is a JavaScript string: a sequence of UTF-16 code units, whose
  \<open>length\<close> counts code units. Identifiers, codes and messages are plain strings.
\<close>

type_synonym jstring = "16 word list"

datatype MemoStatus = UPLOADING | TRANSCRIBING | GENERATING | COMPLETED | FAILED

text \<open>
  The error classes of \<open>utils/errors.ts\<close> that the pipeline throws, the plain
  \<open>Error\<close> of the workers, the \<open>ZodError\<close> of a route's \<open>schema.parse\<close> and the
  request errors of the Prisma client (code and message; the message is cut down to
  its last sentence, and that of a \<open>ZodError\<close> to its first issue).
\<close>

datatype error =
    ValidationError string
  | NotFoundError string
  | AuthorizationError string
  | InternalError string
  | Error string
  | ZodError string
  | PrismaError string string

fun message :: "error \<Rightarrow> string" where
  "message (ValidationError m) = m"
| "message (NotFoundError resource) = resource @ '' not found''"
| "message (AuthorizationError m) = m"
| "message (InternalError m) = m"
| "message (Error m) = m"
| "message (ZodError m) = m"
| "message (PrismaError c m) = m"

datatype Priority = high | medium | low

record ActionItem =
  task :: string
  owner :: "string option"
  dueDate :: "string option"
  priority :: "Priority option"

record MemoContent =
  summary :: string
  keyPoints :: "string list"
  actionItems :: "ActionItem list"
  decisions :: "string list"
  nextSteps :: "string list option"
  attendees :: "string list option"

text \<open>A row of the memo table, keyed by its id in \<open>memos\<close>; \<open>date\<close> in milliseconds.\<close>

record Memo =
  userId :: user_id
  title :: string
  date :: int
  participants :: "string list"
  status :: MemoStatus
  errorMessage :: "string option"
  audioUrl :: "string option"
  audioStorageKey :: "string option"
  duration :: "int option"
  memoContent :: "MemoContent option"

record TranscriptionSegment =
  segId :: nat
  segStart :: rat
  segEnd :: rat
  segText :: jstring

record Transcript =
  transcriptText :: jstring
  transcriptSegments :: "TranscriptionSegment list"
  transcriptLanguage :: string

record Subscription =
  tier :: string
  monthlyMinutes :: int
  minutesUsed :: int

text \<open>The \<open>defaultJobOptions\<close> of \<open>queue.ts\<close>; the backoff delay in milliseconds.\<close>

datatype BackoffType = fixed | exponential

record JobOptions =
  attempts :: nat
  backoffType :: BackoffType
  backoffDelay :: nat
  removeOnCompleteCount :: nat
  removeOnCompleteAge :: nat
  removeOnFailCount :: nat

text \<open>
  A BullMQ job as the helpers of \<open>queue.ts\<close> create it: its custom id, its name, its
  payload \<open>{ memoId }\<close>, its priority, the options of its queue, and the number of
  attempts made so far.
\<close>

record Job =
  jobId :: string
  jobName :: string
  jobMemoId :: memo_id
  jobPriority :: nat
  jobOpts :: JobOptions
  attemptsMade :: nat

text \<open>
  The history is a log of the writes, in the order they happen; no operation reads it.
  \<open>StatusWrite m old new\<close> is one edge of the status ledger of memo \<open>m\<close>.
\<close>

datatype effect =
    MemoCreate memo_id
  | StatusWrite memo_id MemoStatus MemoStatus
  | AudioSet memo_id
  | BlobPut string
  | TranscriptCreate memo_id
  | DurationUpdate memo_id int
  | UsageIncrement user_id int
  | ContentWrite memo_id
  | JobAdd string string

text \<open>
  Modelled from the spec: the Prisma schema (\<open>prisma/schema.prisma\<close>) is not among the
  sources. The spec gives a memo one transcript, owned by the memo, and an account one
  usage counter, and the code agrees: \<open>memo.transcript\<close> is a single optional relation
  (\<open>MemoWithTranscript\<close>, \<open>include: { transcript: true }\<close>), the service tests read a
  transcript with \<open>findUnique({ where: { memoId } })\<close> and the service reads a subscription
  with \<open>findUnique({ where: { userId } })\<close>. So \<open>memoId\<close> is a unique key of the transcript
  table and \<open>userId\<close> one of the subscription table: both tables are maps, and a second
  \<open>create\<close> under a key is rejected.
\<close>

record world =
  memos :: "memo_id \<rightharpoonup> Memo"
  transcripts :: "memo_id \<rightharpoonup> Transcript"
  subscriptions :: "user_id \<rightharpoonup> Subscription"
  transcriptionQueue :: "Job list"
  memoGenerationQueue :: "Job list"
  bucket :: "string \<rightharpoonup> buffer"
  history :: "effect list"

section \<open>Sequencing with exceptions\<close>

type_synonym 'a io = "world \<Rightarrow> (error + 'a) \<times> world"

definition ok :: "'a \<Rightarrow> 'a io" where
  "ok a s = (Inr a, s)"

definition throw :: "error \<Rightarrow> 'a io" where
  "throw e s = (Inl e, s)"

text \<open>\<open>await f; g\<close>: a rejected \<open>f\<close> skips \<open>g\<close> and keeps the state \<open>f\<close> left.\<close>

definition andThen :: "'a io \<Rightarrow> ('a \<Rightarrow> 'b io) \<Rightarrow> 'b io" where
  "andThen f g s = (case f s of (Inl e, s') \<Rightarrow> (Inl e, s') | (Inr a, s') \<Rightarrow> g a s')"

definition logged :: "effect \<Rightarrow> world \<Rightarrow> world" where
  "logged e s = s\<lparr>history := history s @ [e]\<rparr>"

section \<open>MemoService\<close>

text \<open>JavaScript truthiness of an optional string: \<open>undefined\<close>, \<open>null\<close> and \<open>''\<close> are falsy.\<close>

fun truthy :: "string option \<Rightarrow> bool" where
  "truthy None = False"
| "truthy (Some m) = (m \<noteq> [])"

text \<open>
  \<open>updateMemoStatus\<close>: \<open>findUnique\<close>, \<open>NotFoundError('Memo')\<close> when there is no such memo,
  then an update of \<open>status\<close> and, through \<open>...(errorMessage && { errorMessage })\<close>, of
  \<open>errorMessage\<close> only when the argument is truthy. The current status is not read.
\<close>

definition updateMemoStatus :: "memo_id \<Rightarrow> MemoStatus \<Rightarrow> string option \<Rightarrow> Memo io" where
  "updateMemoStatus memoId st err s =
     (case memos s memoId of
        None \<Rightarrow> (Inl (NotFoundError ''Memo''), s)
      | Some memo \<Rightarrow>
          (let updated = (if truthy err then memo\<lparr>status := st, errorMessage := err\<rparr>
                          else memo\<lparr>status := st\<rparr>)
           in (Inr updated,
               logged (StatusWrite memoId (status memo) st)
                 (s\<lparr>memos := (memos s)(memoId \<mapsto> updated)\<rparr>))))"

text \<open>
  \<open>createMemoSchema\<close> of the service: \<open>z.string().min(1).trim()\<close> checks the length of the
  title as given and then trims it; \<open>z.date()\<close> refuses an invalid date and the refinement
  one after \<open>new Date()\<close>.
\<close>

datatype js_date = InvalidDate | Date int

record CreateMemoInput =
  inputTitle :: string
  inputDate :: js_date
  inputParticipants :: "string list option"

text \<open>
  \<open>String.prototype.trim\<close> removes the WhiteSpace and LineTerminator code points of
  ECMAScript from both ends; all of them are single code units.
\<close>

definition isWhiteSpace :: "16 word \<Rightarrow> bool" where
  "isWhiteSpace c =
     (c = 0x9 \<or> c = 0xA \<or> c = 0xB \<or> c = 0xC \<or> c = 0xD \<or> c = 0x20 \<or> c = 0xA0
      \<or> c = 0x1680 \<or> (0x2000 \<le> c \<and> c \<le> 0x200A) \<or> c = 0x2028 \<or> c = 0x2029
      \<or> c = 0x202F \<or> c = 0x205F \<or> c = 0x3000 \<or> c = 0xFEFF)"

definition trim :: "jstring \<Rightarrow> jstring" where
  "trim t = rev (dropWhile isWhiteSpace (rev (dropWhile isWhiteSpace t)))"

text \<open>The same on a plain string, whose characters are the code units below 256.\<close>

definition isWhiteSpaceChar :: "char \<Rightarrow> bool" where
  "isWhiteSpaceChar c = isWhiteSpace (of_nat (of_char c))"

definition trimString :: "string \<Rightarrow> string" where
  "trimString t = rev (dropWhile isWhiteSpaceChar (rev (dropWhile isWhiteSpaceChar t)))"

fun dateOk :: "int \<Rightarrow> js_date \<Rightarrow> bool" where
  "dateOk now InvalidDate = False"
| "dateOk now (Date d) = (d \<le> now)"

fun dateValue :: "js_date \<Rightarrow> int" where
  "dateValue InvalidDate = 0"
| "dateValue (Date d) = d"

text \<open>
  \<open>createMemo\<close>: validation, then \<open>prisma.memo.create\<close> with status \<open>UPLOADING\<close>. \<open>now\<close>
  is the clock the refinement reads and \<open>newId\<close> the id the database generates for
  the row; an id that is already a key is refused by the primary key.
\<close>

definition createMemo :: "int \<Rightarrow> memo_id \<Rightarrow> user_id \<Rightarrow> CreateMemoInput \<Rightarrow> Memo io" where
  "createMemo now newId uid input s =
     (if length (inputTitle input) < 1 \<or> \<not> dateOk now (inputDate input)
      then (Inl (ValidationError ''Invalid memo data''), s)
      else if newId \<in> dom (memos s)
      then (Inl (PrismaError ''P2002'' ''Unique constraint failed on the fields: (id)''), s)
      else
        (let memo = \<lparr>userId = uid,
                     title = trimString (inputTitle input),
                     date = dateValue (inputDate input),
                     participants = (case inputParticipants input of None \<Rightarrow> [] | Some ps \<Rightarrow> ps),
                     status = UPLOADING,
                     errorMessage = None, audioUrl = None, audioStorageKey = None,
                     duration = None, memoContent = None\<rparr>
         in (Inr memo, logged (MemoCreate newId) (s\<lparr>memos := (memos s)(newId \<mapsto> memo)\<rparr>))))"

text \<open>\<open>getMemo\<close>: the memo with its transcript, for its owner only.\<close>

definition getMemo :: "memo_id \<Rightarrow> user_id \<Rightarrow> (Memo \<times> Transcript option) io" where
  "getMemo memoId uid s =
     (case memos s memoId of
        None \<Rightarrow> (Inl (NotFoundError ''Memo''), s)
      | Some memo \<Rightarrow>
          if userId memo \<noteq> uid
          then (Inl (AuthorizationError ''You do not have access to this memo''), s)
          else (Inr (memo, transcripts s memoId), s))"

definition setAudioUrl :: "memo_id \<Rightarrow> string \<Rightarrow> string \<Rightarrow> Memo io" where
  "setAudioUrl memoId url key s =
     (case memos s memoId of
        None \<Rightarrow> (Inl (NotFoundError ''Memo''), s)
      | Some memo \<Rightarrow>
          (let updated = memo\<lparr>audioUrl := Some url, audioStorageKey := Some key\<rparr>
           in (Inr updated, logged (AudioSet memoId) (s\<lparr>memos := (memos s)(memoId \<mapsto> updated)\<rparr>))))"

definition setMemoContent :: "memo_id \<Rightarrow> MemoContent \<Rightarrow> Memo io" where
  "setMemoContent memoId content s =
     (case memos s memoId of
        None \<Rightarrow> (Inl (NotFoundError ''Memo''), s)
      | Some memo \<Rightarrow>
          (let updated = memo\<lparr>memoContent := Some content\<rparr>
           in (Inr updated, logged (ContentWrite memoId) (s\<lparr>memos := (memos s)(memoId \<mapsto> updated)\<rparr>))))"

text \<open>\<open>checkSubscriptionLimits\<close> reads the subscription and writes nothing.\<close>

definition checkSubscriptionLimits :: "user_id \<Rightarrow> bool io" where
  "checkSubscriptionLimits uid s =
     (case subscriptions s uid of
        None \<Rightarrow> (Inr False, s)
      | Some subscription \<Rightarrow>
          if minutesUsed subscription \<ge> monthlyMinutes subscription then (Inr False, s)
          else (Inr True, s))"

text \<open>
  \<open>incrementUsage\<close>: \<open>prisma.subscription.update\<close> with \<open>increment: minutes\<close>; an update
  of a row that does not exist is rejected by the client.
\<close>

definition incrementUsage :: "user_id \<Rightarrow> int \<Rightarrow> unit io" where
  "incrementUsage uid minutes s =
     (case subscriptions s uid of
        None \<Rightarrow> (Inl (PrismaError ''P2025'' ''Record to update not found.''), s)
      | Some subscription \<Rightarrow>
          (Inr (),
           logged (UsageIncrement uid minutes)
             (s\<lparr>subscriptions := (subscriptions s)
                   (uid \<mapsto> subscription\<lparr>minutesUsed := minutesUsed subscription + minutes\<rparr>)\<rparr>)))"

section \<open>Job queues\<close>

definition defaultJobOptions :: JobOptions where
  "defaultJobOptions =
     \<lparr>attempts = 3, backoffType = exponential, backoffDelay = 2000,
      removeOnCompleteCount = 100, removeOnCompleteAge = 24 * 3600,
      removeOnFailCount = 500\<rparr>"

text \<open>
  \<open>Queue.add\<close> belongs to the BullMQ library, not to the repository. With a custom
  \<open>jobId\<close> the library keeps one job per id: an id that is already in the queue is not
  added a second time, and \<open>add\<close> resolves to the job in both cases. A queue is the list
  of its jobs in the order they were added.
\<close>

definition queueAdd :: "string \<Rightarrow> memo_id \<Rightarrow> string \<Rightarrow> nat \<Rightarrow> Job list \<Rightarrow> Job \<times> Job list" where
  "queueAdd name memoId jid prio q =
     (let job = \<lparr>jobId = jid, jobName = name, jobMemoId = memoId, jobPriority = prio,
                 jobOpts = defaultJobOptions, attemptsMade = 0\<rparr>
      in (job, if jid \<in> jobId ` set q then q else q @ [job]))"

definition addTranscriptionJob :: "memo_id \<Rightarrow> Job io" where
  "addTranscriptionJob memoId s =
     (case queueAdd ''transcribe-audio'' memoId (''transcribe-'' @ memoId) 1 (transcriptionQueue s) of
        (job, q) \<Rightarrow>
          (Inr job, logged (JobAdd ''transcription'' (jobId job)) (s\<lparr>transcriptionQueue := q\<rparr>)))"

definition addMemoGenerationJob :: "memo_id \<Rightarrow> Job io" where
  "addMemoGenerationJob memoId s =
     (case queueAdd ''generate-memo'' memoId (''generate-'' @ memoId) 2 (memoGenerationQueue s) of
        (job, q) \<Rightarrow>
          (Inr job, logged (JobAdd ''memo-generation'' (jobId job)) (s\<lparr>memoGenerationQueue := q\<rparr>)))"

section \<open>The outside world\<close>

text \<open>
  What one request or one job attempt finds outside the database: the configuration
  \<open>env\<close>, the clock, the id the database generates for a new memo, whether S3 answers,
  and what the two OpenAI calls return. \<open>generateMemo\<close> stands for the method of
  \<open>MemoGenerationService\<close>, which maps every failure of the chat call, of
  \<open>JSON.parse\<close> and of the schema to a \<open>ValidationError\<close> or an \<open>InternalError\<close>.
\<close>

datatype s3_get = Answer | SendFails | EmptyBody | StreamError string

record ApiError =
  errCode :: "string option"
  errStatus :: "nat option"
  errMessage :: string

record WhisperResponse =
  respText :: jstring
  respSegments :: "TranscriptionSegment list option"
  respLanguage :: "string option"

record env =
  OPENAI_API_KEY :: "string option"
  AWS_ENDPOINT :: "string option"
  S3_BUCKET_NAME :: string
  AWS_REGION :: string
  now :: int
  nowText :: string
  newId :: memo_id
  s3PutFails :: bool
  s3Get :: s3_get
  whisper :: "buffer \<Rightarrow> string \<Rightarrow> ApiError + WhisperResponse"
  generateMemo :: "jstring \<Rightarrow> string \<Rightarrow> string list \<Rightarrow> int \<Rightarrow> error + MemoContent"

section \<open>StorageService\<close>

text \<open>
  \<open>uploadAudio\<close>: the key is \<open>memos/${memoId}/audio-${Date.now()}.mp3\<close> (\<open>nowText\<close> is
  the clock in decimal); every failure of the put is an \<open>InternalError\<close>.
\<close>

definition audioKey :: "env \<Rightarrow> memo_id \<Rightarrow> string" where
  "audioKey e memoId = ''memos/'' @ memoId @ ''/audio-'' @ nowText e @ ''.mp3''"

definition audioUrlOf :: "env \<Rightarrow> string \<Rightarrow> string" where
  "audioUrlOf e key =
     (if truthy (AWS_ENDPOINT e)
      then (case AWS_ENDPOINT e of None \<Rightarrow> [] | Some endpoint \<Rightarrow> endpoint)
             @ ''/'' @ S3_BUCKET_NAME e @ ''/'' @ key
      else ''https://'' @ S3_BUCKET_NAME e @ ''.s3.'' @ AWS_REGION e @ ''.amazonaws.com/'' @ key)"

definition uploadAudio :: "env \<Rightarrow> buffer \<Rightarrow> memo_id \<Rightarrow> (string \<times> string) io" where
  "uploadAudio e buf memoId s =
     (let key = audioKey e memoId
      in if s3PutFails e then (Inl (InternalError ''Failed to upload audio file''), s)
         else (Inr (audioUrlOf e key, key),
               logged (BlobPut key) (s\<lparr>bucket := (bucket s)(key \<mapsto> buf)\<rparr>)))"

text \<open>
  \<open>downloadAudio\<close>: a failed \<open>send\<close> (a missing key among them) and an empty body are
  caught and rethrown as an \<open>InternalError\<close>; an error of the stream rejects the returned
  promise as it is.
\<close>

definition downloadAudio :: "env \<Rightarrow> string \<Rightarrow> buffer io" where
  "downloadAudio e key s =
     (case s3Get e of
        SendFails \<Rightarrow> (Inl (InternalError ''Failed to download audio file''), s)
      | EmptyBody \<Rightarrow> (Inl (InternalError ''Failed to download audio file''), s)
      | StreamError m \<Rightarrow> (Inl (Error m), s)
      | Answer \<Rightarrow>
          (case bucket s key of
             None \<Rightarrow> (Inl (InternalError ''Failed to download audio file''), s)
           | Some buf \<Rightarrow> (Inr buf, s)))"

section \<open>TranscriptionService\<close>

record TranscriptionResult =
  resultText :: jstring
  resultSegments :: "TranscriptionSegment list"
  resultLanguage :: string
  resultDuration :: int

text \<open>
  \<open>transcribeAudio\<close>: the duration is the end of the last segment, in seconds, divided by
  60 and rounded up (\<open>Math.ceil\<close>); the seconds are rationals here, not doubles.
\<close>

definition transcribeAudio ::
  "(buffer \<Rightarrow> string \<Rightarrow> ApiError + WhisperResponse) \<Rightarrow> buffer \<Rightarrow> string \<Rightarrow> error + TranscriptionResult"
where
  "transcribeAudio api audioBuffer language =
     (case api audioBuffer language of
        Inl err \<Rightarrow>
          if errCode err = Some ''insufficient_quota''
          then Inl (InternalError ''OpenAI API quota exceeded'')
          else if errStatus err = Some 413
          then Inl (InternalError ''Audio file too large for transcription'')
          else Inl (InternalError (''Transcription failed: '' @ errMessage err))
      | Inr response \<Rightarrow>
          (let segs = (case respSegments response of None \<Rightarrow> [] | Some xs \<Rightarrow> xs);
               seconds = (if segs \<noteq> [] then segEnd (last segs) else 0)
           in Inr \<lparr>resultText = respText response,
                   resultSegments = segs,
                   resultLanguage = (case respLanguage response of
                                       None \<Rightarrow> language
                                     | Some l \<Rightarrow> if l \<noteq> [] then l else language),
                   resultDuration = \<lceil>seconds / 60\<rceil>\<rparr>))"

section \<open>MemoGenerationService\<close>

definition validateTranscript :: "jstring \<Rightarrow> error + bool" where
  "validateTranscript transcript =
     (if transcript = [] \<or> length (trim transcript) = 0
      then Inl (ValidationError ''Transcript is empty'')
      else if length transcript < 50
      then Inl (ValidationError ''Transcript too short (minimum 50 characters)'')
      else if length transcript > 100000
      then Inl (ValidationError ''Transcript too long (maximum 100,000 characters)'')
      else Inr True)"

section \<open>Workers\<close>

text \<open>
  The \<open>try\<close> block of the transcription worker, statement by statement. \<open>transcript.create\<close>
  is rejected when the memo already has a transcript (the unique key), and
  \<open>memo.update\<close> when the memo is gone.
\<close>

definition transcriptCreate :: "memo_id \<Rightarrow> TranscriptionResult \<Rightarrow> unit io" where
  "transcriptCreate memoId result s =
     (if memoId \<in> dom (transcripts s)
      then (Inl (PrismaError ''P2002'' ''Unique constraint failed on the fields: (memoId)''), s)
      else (Inr (),
            logged (TranscriptCreate memoId)
              (s\<lparr>transcripts := (transcripts s)
                    (memoId \<mapsto> \<lparr>transcriptText = resultText result,
                                transcriptSegments = resultSegments result,
                                transcriptLanguage = resultLanguage result\<rparr>)\<rparr>)))"

definition updateDuration :: "memo_id \<Rightarrow> int \<Rightarrow> unit io" where
  "updateDuration memoId seconds s =
     (case memos s memoId of
        None \<Rightarrow> (Inl (PrismaError ''P2025'' ''Record to update not found.''), s)
      | Some memo \<Rightarrow>
          (Inr (),
           logged (DurationUpdate memoId seconds)
             (s\<lparr>memos := (memos s)(memoId \<mapsto> memo\<lparr>duration := Some seconds\<rparr>)\<rparr>)))"

definition liftResult :: "error + 'a \<Rightarrow> 'a io" where
  "liftResult r s = (r, s)"

text \<open>From the download to the enqueueing of the generation job.\<close>

definition transcriptionSteps :: "env \<Rightarrow> memo_id \<Rightarrow> Memo \<Rightarrow> string \<Rightarrow> int io" where
  "transcriptionSteps e memoId memo key =
     andThen (downloadAudio e key) (\<lambda>audioBuffer.
     andThen (liftResult (transcribeAudio (whisper e) audioBuffer ''en'')) (\<lambda>result.
     andThen (transcriptCreate memoId result) (\<lambda>_.
     andThen (updateDuration memoId (resultDuration result * 60)) (\<lambda>_.
     andThen (incrementUsage (userId memo) (resultDuration result)) (\<lambda>_.
     andThen (addMemoGenerationJob memoId) (\<lambda>_.
     ok (resultDuration result)))))))"

definition transcriptionTry :: "env \<Rightarrow> memo_id \<Rightarrow> int io" where
  "transcriptionTry e memoId =
     andThen (updateMemoStatus memoId TRANSCRIBING None) (\<lambda>_ s.
       case memos s memoId of
         None \<Rightarrow> (Inl (Error ''Memo not found''), s)
       | Some memo \<Rightarrow>
           (case audioStorageKey memo of
              None \<Rightarrow> (Inl (Error ''No audio file available''), s)
            | Some key \<Rightarrow>
                if key = [] then (Inl (Error ''No audio file available''), s)
                else transcriptionSteps e memoId memo key s))"

text \<open>
  The handler of the transcription worker. \<open>new TranscriptionService()\<close> stands
  before the \<open>try\<close> and throws without an API key. The \<open>catch\<close> marks the memo
  \<open>FAILED\<close> and rethrows; when that update is rejected itself, its error is the one
  thrown. The handler reads \<open>job.data.memoId\<close> and nothing else of the job.
\<close>

definition transcriptionWorker :: "env \<Rightarrow> Job \<Rightarrow> int io" where
  "transcriptionWorker e job s =
     (let memoId = jobMemoId job
      in if \<not> truthy (OPENAI_API_KEY e)
         then (Inl (Error ''OPENAI_API_KEY is required for transcription service''), s)
         else
           (case transcriptionTry e memoId s of
              (Inr r, s') \<Rightarrow> (Inr r, s')
            | (Inl err, s') \<Rightarrow>
                andThen
                  (updateMemoStatus memoId FAILED
                     (Some (''Transcription failed: '' @ message err)))
                  (\<lambda>_. throw err) s'))"

text \<open>
  From the validation of the transcript to \<open>COMPLETED\<close>. \<open>measureTime\<close> passes the
  result and the error of \<open>generateMemo\<close> through.
\<close>

definition generationSteps :: "env \<Rightarrow> memo_id \<Rightarrow> Memo \<Rightarrow> Transcript \<Rightarrow> MemoContent io" where
  "generationSteps e memoId memo transcript =
     andThen (liftResult (validateTranscript (transcriptText transcript))) (\<lambda>_.
     andThen (liftResult (generateMemo e (transcriptText transcript) (title memo)
                            (participants memo) (date memo))) (\<lambda>content.
     andThen (setMemoContent memoId content) (\<lambda>_.
     andThen (updateMemoStatus memoId COMPLETED None) (\<lambda>_.
     ok content))))"

definition memoGenerationTry :: "env \<Rightarrow> memo_id \<Rightarrow> MemoContent io" where
  "memoGenerationTry e memoId =
     andThen (updateMemoStatus memoId GENERATING None) (\<lambda>_ s.
       case memos s memoId of
         None \<Rightarrow> (Inl (Error ''Memo not found''), s)
       | Some memo \<Rightarrow>
           (case transcripts s memoId of
              None \<Rightarrow> (Inl (Error ''No transcript available''), s)
            | Some transcript \<Rightarrow> generationSteps e memoId memo transcript s))"

definition memoGenerationWorker :: "env \<Rightarrow> Job \<Rightarrow> MemoContent io" where
  "memoGenerationWorker e job s =
     (let memoId = jobMemoId job
      in if \<not> truthy (OPENAI_API_KEY e)
         then (Inl (Error ''OPENAI_API_KEY is required for memo generation service''), s)
         else
           (case memoGenerationTry e memoId s of
              (Inr r, s') \<Rightarrow> (Inr r, s')
            | (Inl err, s') \<Rightarrow>
                andThen
                  (updateMemoStatus memoId FAILED
                     (Some (''Memo generation failed: '' @ message err)))
                  (\<lambda>_. throw err) s'))"

text \<open>
  How the queue runs a job with the options above: the handler is called again after
  each rejection until the attempts made reach \<open>attempts\<close>. The list gives the outside
  world at each attempt; the delays between attempts are not part of the state.
\<close>

datatype 'a job_state = Waiting | Completed 'a | Failed error

fun process :: "(env \<Rightarrow> Job \<Rightarrow> 'a io) \<Rightarrow> env list \<Rightarrow> Job \<Rightarrow> world \<Rightarrow> 'a job_state \<times> world" where
  "process handler [] job s = (Waiting, s)"
| "process handler (e # es) job s =
     (case handler e job s of
        (Inr r, s') \<Rightarrow> (Completed r, s')
      | (Inl err, s') \<Rightarrow>
          if attemptsMade job + 1 < attempts (jobOpts job)
          then process handler es (job\<lparr>attemptsMade := attemptsMade job + 1\<rparr>) s'
          else (Failed err, s'))"

text \<open>Any sequence of handler calls of the two workers, for any jobs.\<close>

datatype attempt = TranscriptionAttempt env Job | GenerationAttempt env Job

fun runAttempt :: "attempt \<Rightarrow> world \<Rightarrow> world" where
  "runAttempt (TranscriptionAttempt e job) s = snd (transcriptionWorker e job s)"
| "runAttempt (GenerationAttempt e job) s = snd (memoGenerationWorker e job s)"

definition runAttempts :: "attempt list \<Rightarrow> world \<Rightarrow> world" where
  "runAttempts as s = foldl (\<lambda>s a. runAttempt a s) s as"


section \<open>Memo routes\<close>

text \<open>
  What a handler sends: \<open>reply.status(c).send(body)\<close>, with 200 when no status is set.
  A thrown error leaves the handler as \<open>Inl\<close>.
\<close>

datatype payload =
    ErrorBody string string
  | MemoBody Memo
  | AudioBody string string

datatype reply = Reply nat payload

text \<open>
  The body of \<open>POST /\<close> as \<open>createMemoSchema\<close> of the routes sees it: the title when it
  is a string, and the date absent, not an ISO datetime, or the instant it denotes.
\<close>

datatype body_date = NoDate | BadDate | IsoDate int

record CreateMemoBody =
  bodyTitle :: "string option"
  bodyDate :: body_date
  bodyParticipants :: "string list option"

definition parseCreateMemoBody :: "CreateMemoBody \<Rightarrow> error + CreateMemoBody" where
  "parseCreateMemoBody body =
     (case bodyTitle body of
        None \<Rightarrow> Inl (ZodError ''Required'')
      | Some t \<Rightarrow>
          if length t < 1 then Inl (ZodError ''String must contain at least 1 character(s)'')
          else if bodyDate body = BadDate then Inl (ZodError ''Invalid datetime'')
          else Inr body)"

text \<open>
  \<open>POST /\<close>: parse the body, check the subscription, reply 403 when the check says no,
  create the memo otherwise. \<open>uid\<close> is \<open>request.user.id\<close>.
\<close>

definition postMemo :: "env \<Rightarrow> user_id \<Rightarrow> CreateMemoBody \<Rightarrow> reply io" where
  "postMemo e uid rawBody =
     andThen (liftResult (parseCreateMemoBody rawBody)) (\<lambda>body.
     andThen (checkSubscriptionLimits uid) (\<lambda>canCreate.
       if \<not> canCreate
       then ok (Reply 403 (ErrorBody ''SUBSCRIPTION_LIMIT_EXCEEDED''
                  ''Monthly minutes limit exceeded. Please upgrade your plan.''))
       else
         andThen (createMemo (now e) (newId e) uid
                    \<lparr>inputTitle = (case bodyTitle body of None \<Rightarrow> [] | Some t \<Rightarrow> t),
                     inputDate = (case bodyDate body of IsoDate d \<Rightarrow> Date d | _ \<Rightarrow> Date (now e)),
                     inputParticipants = bodyParticipants body\<rparr>) (\<lambda>memo.
         ok (Reply 201 (MemoBody memo)))))"

text \<open>
  \<open>POST /:memoId/audio\<close>. \<open>upload\<close> is what \<open>request.file\<close> returns: nothing, or a file
  with its bytes and MIME type; \<open>toBuffer\<close> rejects a file over the 100 MB limit.
\<close>

record UploadedFile =
  fileBytes :: buffer
  mimetype :: string

definition toBuffer :: "UploadedFile \<Rightarrow> error + buffer" where
  "toBuffer f =
     (if length (fileBytes f) > 100 * 1024 * 1024 then Inl (Error ''request file too large'')
      else Inr (fileBytes f))"

definition postAudio :: "env \<Rightarrow> user_id \<Rightarrow> memo_id \<Rightarrow> UploadedFile option \<Rightarrow> reply io" where
  "postAudio e uid memoId upload =
     andThen (getMemo memoId uid) (\<lambda>(memo, transcript).
       if status memo \<noteq> UPLOADING
       then ok (Reply 400 (ErrorBody ''INVALID_STATUS''
                  ''Audio can only be uploaded for memos in UPLOADING status''))
       else
         (case upload of
            None \<Rightarrow> ok (Reply 400 (ErrorBody ''NO_FILE'' ''No file uploaded''))
          | Some f \<Rightarrow>
              andThen (liftResult (toBuffer f)) (\<lambda>buf.
              andThen (uploadAudio e buf memoId) (\<lambda>(url, key).
              andThen (setAudioUrl memoId url key) (\<lambda>_.
              andThen (addTranscriptionJob memoId) (\<lambda>_.
              ok (Reply 200 (AudioBody ''Audio uploaded successfully. Transcription started.'' url))))))))"

section \<open>Notions of the claims\<close>



text \<open>The usage increments of a history, and the attempts of the generation worker.\<close>

fun usageIncrements :: "effect list \<Rightarrow> (user_id \<times> int) list" where
  "usageIncrements [] = []"
| "usageIncrements (UsageIncrement u n # es) = (u, n) # usageIncrements es"
| "usageIncrements (_ # es) = usageIncrements es"

text \<open>
  \<open>d\<close> is a duration the transcription service measures in the outside world \<open>e\<close>:
  what \<open>transcribeAudio\<close> returns there for some audio.
\<close>

definition measuredIn :: "env \<Rightarrow> int \<Rightarrow> bool" where
  "measuredIn e d =
     (\<exists>buf result. transcribeAudio (whisper e) buf ''en'' = Inr result \<and> resultDuration result = d)"

fun isGeneration :: "attempt \<Rightarrow> bool" where
  "isGeneration (GenerationAttempt e job) = True"
| "isGeneration (TranscriptionAttempt e job) = False"

text \<open>
  The caller has quota left: a subscription whose minutes used are below its monthly
  minutes. The date of a body is accepted by the service when it is not in the future.
\<close>

definition quotaLeft :: "world \<Rightarrow> user_id \<Rightarrow> bool" where
  "quotaLeft s uid =
     (case subscriptions s uid of None \<Rightarrow> False
      | Some subscription \<Rightarrow> minutesUsed subscription < monthlyMinutes subscription)"

definition dateAccepted :: "env \<Rightarrow> CreateMemoBody \<Rightarrow> bool" where
  "dateAccepted e body = (case bodyDate body of IsoDate d \<Rightarrow> d \<le> now e | _ \<Rightarrow> True)"

section \<open>A concrete run\<close>

text \<open>
  One memo of one user after its audio was uploaded: status \<open>UPLOADING\<close>, the audio in
  the bucket, the transcription job in its queue, no attempt made yet.
\<close>

definition memo1 :: Memo where
  "memo1 =
     \<lparr>userId = ''u1'', title = ''Standup'', date = 0, participants = [],
      status = UPLOADING, errorMessage = None,
      audioUrl = Some ''https://audio.s3.eu.amazonaws.com/memos/m1/audio-1.mp3'',
      audioStorageKey = Some ''memos/m1/audio-1.mp3'',
      duration = None, memoContent = None\<rparr>"

definition job1 :: Job where
  "job1 =
     \<lparr>jobId = ''transcribe-m1'', jobName = ''transcribe-audio'', jobMemoId = ''m1'',
      jobPriority = 1, jobOpts = defaultJobOptions, attemptsMade = 0\<rparr>"

definition job2 :: Job where
  "job2 =
     \<lparr>jobId = ''generate-m1'', jobName = ''generate-memo'', jobMemoId = ''m1'',
      jobPriority = 2, jobOpts = defaultJobOptions, attemptsMade = 0\<rparr>"

definition world1 :: world where
  "world1 =
     \<lparr>memos = [''m1'' \<mapsto> memo1],
      transcripts = Map.empty,
      subscriptions = [''u1'' \<mapsto> \<lparr>tier = ''FREE'', monthlyMinutes = 120, minutesUsed = 0\<rparr>],
      transcriptionQueue = [job1],
      memoGenerationQueue = [],
      bucket = [''memos/m1/audio-1.mp3'' \<mapsto> [1, 2, 3]],
      history = []\<rparr>"

text \<open>A transcript of sixty letters whose last segment ends after 600 seconds.\<close>

definition response1 :: WhisperResponse where
  "response1 =
     \<lparr>respText = replicate 60 0x61,
      respSegments = Some [\<lparr>segId = 0, segStart = 0, segEnd = 600, segText = replicate 60 0x61\<rparr>],
      respLanguage = Some ''en''\<rparr>"

definition content1 :: MemoContent where
  "content1 =
     \<lparr>summary = ''Daily standup'', keyPoints = [], actionItems = [], decisions = [],
      nextSteps = None, attendees = None\<rparr>"

text \<open>The outside world when every service answers.\<close>

definition envOk :: env where
  "envOk =
     \<lparr>OPENAI_API_KEY = Some ''sk'', AWS_ENDPOINT = None, S3_BUCKET_NAME = ''audio'',
      AWS_REGION = ''eu'', now = 1000, nowText = ''1000'', newId = ''m2'',
      s3PutFails = False, s3Get = Answer,
      whisper = (\<lambda>buf language. Inr response1),
      generateMemo = (\<lambda>transcript t ps d. Inr content1)\<rparr>"

text \<open>The same with S3 not answering, and with the generation provider timing out.\<close>

definition envDown :: env where
  "envDown = envOk\<lparr>s3Get := SendFails, s3PutFails := True\<rparr>"

definition envTimeout :: env where
  "envTimeout = envOk\<lparr>generateMemo := (\<lambda>transcript t ps d. Inl (InternalError ''Memo generation failed: timeout''))\<rparr>"

text \<open>The same with a second recording of the meeting, ninety letters long.\<close>

definition envAgain :: env where
  "envAgain =
     envOk\<lparr>whisper := (\<lambda>buf language. Inr (response1\<lparr>respText := replicate 90 0x62\<rparr>))\<rparr>"

text \<open>The state after the first transcription attempt succeeded, and after it failed.\<close>

definition world2 :: world where
  "world2 = snd (transcriptionWorker envOk job1 world1)"

definition world3 :: world where
  "world3 = snd (transcriptionWorker envDown job1 world1)"

text \<open>
  A request to create a memo, an uploaded file, and the state before the audio of
  \<open>m1\<close> was uploaded.
\<close>

definition body1 :: CreateMemoBody where
  "body1 = \<lparr>bodyTitle = Some ''Retro'', bodyDate = NoDate, bodyParticipants = None\<rparr>"

definition upload1 :: UploadedFile where
  "upload1 = \<lparr>fileBytes = [7, 7], mimetype = ''audio/mpeg''\<rparr>"

definition world0 :: world where
  "world0 = world1\<lparr>memos := [''m1'' \<mapsto> memo1\<lparr>audioUrl := None, audioStorageKey := None\<rparr>],
                   transcriptionQueue := [], bucket := Map.empty\<rparr>"

section \<open>What each operation does to the state\<close>


lemma downloadAudio_state: "snd (downloadAudio e key s) = s"
  by (simp add: downloadAudio_def split: s3_get.splits option.splits)

lemma downloadAudio_eq: "downloadAudio e key s = (fst (downloadAudio e key s), s)"
  by (metis downloadAudio_state prod.collapse)

lemma transcriptionSteps_cases:
  assumes run: "transcriptionSteps e m memo key s = (r, s')"
    and memo: "memos s m \<noteq> None"
  obtains (Rejected) err where "r = Inl err" "s' = s"
  | (NoSubscription) buf result where
      "transcribeAudio (whisper e) buf ''en'' = Inr result"
      "transcripts s m = None" "subscriptions s (userId memo) = None"
      "r = Inl (PrismaError ''P2025'' ''Record to update not found.'')"
      "s' = snd (updateDuration m (resultDuration result * 60) (snd (transcriptCreate m result s)))"
  | (Done) buf result sub where
      "transcribeAudio (whisper e) buf ''en'' = Inr result"
      "transcripts s m = None" "subscriptions s (userId memo) = Some sub"
      "r = Inr (resultDuration result)"
      "s' = snd (addMemoGenerationJob m
               (snd (incrementUsage (userId memo) (resultDuration result)
                  (snd (updateDuration m (resultDuration result * 60)
                     (snd (transcriptCreate m result s)))))))"
proof -
  obtain mm where mm: "memos s m = Some mm" using memo by auto
  note dl = downloadAudio_eq [of e key s]
  show thesis
  proof (cases "fst (downloadAudio e key s)")
    case (Inl err)
    with run dl have "r = Inl err \<and> s' = s"
      by (simp add: transcriptionSteps_def andThen_def)
    then show thesis using Rejected by blast
  next
    case buf: (Inr buf)
    show thesis
    proof (cases "transcribeAudio (whisper e) buf ''en''")
      case (Inl err)
      with run dl buf have "r = Inl err \<and> s' = s"
        by (simp add: transcriptionSteps_def andThen_def liftResult_def)
      then show thesis using Rejected by blast
    next
      case res: (Inr result)
      show thesis
      proof (cases "transcripts s m")
        case (Some t)
        with run dl buf res have "r = Inl (PrismaError ''P2002'' ''Unique constraint failed on the fields: (memoId)'') \<and> s' = s"
          by (simp add: transcriptionSteps_def andThen_def liftResult_def transcriptCreate_def dom_def)
        then show thesis using Rejected by blast
      next
        case noT: None
        show thesis
        proof (cases "subscriptions s (userId memo)")
          case None
          with run dl buf res noT mm
          have "r = Inl (PrismaError ''P2025'' ''Record to update not found.'')
                \<and> s' = snd (updateDuration m (resultDuration result * 60) (snd (transcriptCreate m result s)))"
            by (simp add: transcriptionSteps_def andThen_def liftResult_def transcriptCreate_def dom_def
                  updateDuration_def incrementUsage_def logged_def)
          then show thesis using NoSubscription res noT None by blast
        next
          case (Some sub)
          with run dl buf res noT mm
          have "r = Inr (resultDuration result)
                \<and> s' = snd (addMemoGenerationJob m
               (snd (incrementUsage (userId memo) (resultDuration result)
                  (snd (updateDuration m (resultDuration result * 60)
                     (snd (transcriptCreate m result s)))))))"
            by (simp add: transcriptionSteps_def andThen_def liftResult_def transcriptCreate_def dom_def
                  updateDuration_def incrementUsage_def logged_def addMemoGenerationJob_def ok_def queueAdd_def Let_def
                  split: prod.splits if_splits)
          then show thesis using Done res noT Some by blast
        qed
      qed
    qed
  qed
qed


named_theorems frame

lemma updateMemoStatus_frame [frame]:
  "memos (snd (updateMemoStatus m st err s)) =
     (case memos s m of None \<Rightarrow> memos s
      | Some memo \<Rightarrow> (memos s)(m \<mapsto> (if truthy err then memo\<lparr>status := st, errorMessage := err\<rparr>
                                      else memo\<lparr>status := st\<rparr>)))"
  "history (snd (updateMemoStatus m st err s)) =
     (case memos s m of None \<Rightarrow> history s
      | Some memo \<Rightarrow> history s @ [StatusWrite m (status memo) st])"
  "transcripts (snd (updateMemoStatus m st err s)) = transcripts s"
  "subscriptions (snd (updateMemoStatus m st err s)) = subscriptions s"
  "transcriptionQueue (snd (updateMemoStatus m st err s)) = transcriptionQueue s"
  "memoGenerationQueue (snd (updateMemoStatus m st err s)) = memoGenerationQueue s"
  "bucket (snd (updateMemoStatus m st err s)) = bucket s"
  by (simp_all add: updateMemoStatus_def logged_def Let_def split: option.splits)

lemma transcriptCreate_frame [frame]:
  "transcripts (snd (transcriptCreate m result s)) =
     (if m \<in> dom (transcripts s) then transcripts s
      else (transcripts s)(m \<mapsto> \<lparr>transcriptText = resultText result,
                                   transcriptSegments = resultSegments result,
                                   transcriptLanguage = resultLanguage result\<rparr>))"
  "history (snd (transcriptCreate m result s)) =
     (if m \<in> dom (transcripts s) then history s else history s @ [TranscriptCreate m])"
  "memos (snd (transcriptCreate m result s)) = memos s"
  "subscriptions (snd (transcriptCreate m result s)) = subscriptions s"
  "transcriptionQueue (snd (transcriptCreate m result s)) = transcriptionQueue s"
  "memoGenerationQueue (snd (transcriptCreate m result s)) = memoGenerationQueue s"
  "bucket (snd (transcriptCreate m result s)) = bucket s"
  by (simp_all add: transcriptCreate_def logged_def)

lemma updateDuration_frame [frame]:
  "memos (snd (updateDuration m secs s)) =
     (case memos s m of None \<Rightarrow> memos s
      | Some memo \<Rightarrow> (memos s)(m \<mapsto> memo\<lparr>duration := Some secs\<rparr>))"
  "history (snd (updateDuration m secs s)) =
     (case memos s m of None \<Rightarrow> history s | Some memo \<Rightarrow> history s @ [DurationUpdate m secs])"
  "transcripts (snd (updateDuration m secs s)) = transcripts s"
  "subscriptions (snd (updateDuration m secs s)) = subscriptions s"
  "transcriptionQueue (snd (updateDuration m secs s)) = transcriptionQueue s"
  "memoGenerationQueue (snd (updateDuration m secs s)) = memoGenerationQueue s"
  "bucket (snd (updateDuration m secs s)) = bucket s"
  by (simp_all add: updateDuration_def logged_def split: option.splits)

lemma incrementUsage_frame [frame]:
  "subscriptions (snd (incrementUsage u n s)) =
     (case subscriptions s u of None \<Rightarrow> subscriptions s
      | Some sub \<Rightarrow> (subscriptions s)(u \<mapsto> sub\<lparr>minutesUsed := minutesUsed sub + n\<rparr>))"
  "history (snd (incrementUsage u n s)) =
     (case subscriptions s u of None \<Rightarrow> history s | Some sub \<Rightarrow> history s @ [UsageIncrement u n])"
  "memos (snd (incrementUsage u n s)) = memos s"
  "transcripts (snd (incrementUsage u n s)) = transcripts s"
  "transcriptionQueue (snd (incrementUsage u n s)) = transcriptionQueue s"
  "memoGenerationQueue (snd (incrementUsage u n s)) = memoGenerationQueue s"
  "bucket (snd (incrementUsage u n s)) = bucket s"
  by (simp_all add: incrementUsage_def logged_def split: option.splits)

lemma addMemoGenerationJob_frame [frame]:
  "history (snd (addMemoGenerationJob m s)) = history s @ [JobAdd ''memo-generation'' (''generate-'' @ m)]"
  "memos (snd (addMemoGenerationJob m s)) = memos s"
  "transcripts (snd (addMemoGenerationJob m s)) = transcripts s"
  "subscriptions (snd (addMemoGenerationJob m s)) = subscriptions s"
  "transcriptionQueue (snd (addMemoGenerationJob m s)) = transcriptionQueue s"
  "bucket (snd (addMemoGenerationJob m s)) = bucket s"
  by (simp_all add: addMemoGenerationJob_def queueAdd_def logged_def Let_def)

lemma setMemoContent_frame [frame]:
  "memos (snd (setMemoContent m c s)) =
     (case memos s m of None \<Rightarrow> memos s
      | Some memo \<Rightarrow> (memos s)(m \<mapsto> memo\<lparr>memoContent := Some c\<rparr>))"
  "history (snd (setMemoContent m c s)) =
     (case memos s m of None \<Rightarrow> history s | Some memo \<Rightarrow> history s @ [ContentWrite m])"
  "transcripts (snd (setMemoContent m c s)) = transcripts s"
  "subscriptions (snd (setMemoContent m c s)) = subscriptions s"
  "transcriptionQueue (snd (setMemoContent m c s)) = transcriptionQueue s"
  "memoGenerationQueue (snd (setMemoContent m c s)) = memoGenerationQueue s"
  "bucket (snd (setMemoContent m c s)) = bucket s"
  by (simp_all add: setMemoContent_def logged_def Let_def split: option.splits)

lemma updateMemoStatus_found:
  "memos s m = Some memo \<Longrightarrow>
     fst (updateMemoStatus m st err s) =
       Inr (if truthy err then memo\<lparr>status := st, errorMessage := err\<rparr> else memo\<lparr>status := st\<rparr>)"
  by (simp add: updateMemoStatus_def Let_def)

lemma updateMemoStatus_missing:
  "memos s m = None \<Longrightarrow> updateMemoStatus m st err s = (Inl (NotFoundError ''Memo''), s)"
  by (simp add: updateMemoStatus_def)

lemma catch_found:
  "memos s m \<noteq> None \<Longrightarrow>
     andThen (updateMemoStatus m st err) (\<lambda>_. throw x) s = (Inl x, snd (updateMemoStatus m st err s))"
  by (auto simp: andThen_def updateMemoStatus_def throw_def Let_def)

lemma transcriptionTry_found:
  assumes "memos s m = Some memo"
  shows "transcriptionTry e m s =
     (case audioStorageKey memo of
        None \<Rightarrow> (Inl (Error ''No audio file available''), snd (updateMemoStatus m TRANSCRIBING None s))
      | Some key \<Rightarrow>
          if key = [] then (Inl (Error ''No audio file available''), snd (updateMemoStatus m TRANSCRIBING None s))
          else transcriptionSteps e m (memo\<lparr>status := TRANSCRIBING\<rparr>) key
                 (snd (updateMemoStatus m TRANSCRIBING None s)))"
  using assms
  by (simp add: transcriptionTry_def andThen_def updateMemoStatus_def logged_def Let_def split: option.splits)

lemma transcriptionWorker_cases:
  assumes run: "transcriptionWorker e job s = (r, s')"
  obtains (NoKey) "\<not> truthy (OPENAI_API_KEY e)" "s' = s"
      "r = Inl (Error ''OPENAI_API_KEY is required for transcription service'')"
  | (NoMemo) "truthy (OPENAI_API_KEY e)" "memos s (jobMemoId job) = None" "s' = s"
      "r = Inl (NotFoundError ''Memo'')"
  | (Rejected) memo err where "truthy (OPENAI_API_KEY e)"
      "memos s (jobMemoId job) = Some memo" "r = Inl err"
      "s' = snd (updateMemoStatus (jobMemoId job) FAILED (Some (''Transcription failed: '' @ message err))
              (snd (updateMemoStatus (jobMemoId job) TRANSCRIBING None s)))"
  | (NoSubscription) memo buf result where "truthy (OPENAI_API_KEY e)"
      "memos s (jobMemoId job) = Some memo"
      "transcribeAudio (whisper e) buf ''en'' = Inr result"
      "transcripts s (jobMemoId job) = None" "subscriptions s (userId memo) = None"
      "r = Inl (PrismaError ''P2025'' ''Record to update not found.'')"
      "s' = snd (updateMemoStatus (jobMemoId job) FAILED
                   (Some (''Transcription failed: '' @ ''Record to update not found.''))
              (snd (updateDuration (jobMemoId job) (resultDuration result * 60)
                 (snd (transcriptCreate (jobMemoId job) result
                    (snd (updateMemoStatus (jobMemoId job) TRANSCRIBING None s)))))))"
  | (Done) memo buf result sub where "truthy (OPENAI_API_KEY e)"
      "memos s (jobMemoId job) = Some memo"
      "transcribeAudio (whisper e) buf ''en'' = Inr result"
      "transcripts s (jobMemoId job) = None" "subscriptions s (userId memo) = Some sub"
      "r = Inr (resultDuration result)"
      "s' = snd (addMemoGenerationJob (jobMemoId job)
               (snd (incrementUsage (userId memo) (resultDuration result)
                  (snd (updateDuration (jobMemoId job) (resultDuration result * 60)
                     (snd (transcriptCreate (jobMemoId job) result
                        (snd (updateMemoStatus (jobMemoId job) TRANSCRIBING None s)))))))))"
proof (cases "truthy (OPENAI_API_KEY e)")
  case False
  with run have "s' = s" "r = Inl (Error ''OPENAI_API_KEY is required for transcription service'')"
    by (auto simp: transcriptionWorker_def Let_def)
  with False show thesis using NoKey by blast
next
  case key: True
  let ?m = "jobMemoId job"
  let ?s1 = "snd (updateMemoStatus ?m TRANSCRIBING None s)"
  show thesis
  proof (cases "memos s ?m")
    case None
    then have "transcriptionTry e ?m s = (Inl (NotFoundError ''Memo''), s)"
      by (simp add: transcriptionTry_def andThen_def updateMemoStatus_missing)
    with run key None have "s' = s" "r = Inl (NotFoundError ''Memo'')"
      by (auto simp: transcriptionWorker_def Let_def andThen_def updateMemoStatus_missing)
    with key None show thesis using NoMemo by blast
  next
    case (Some memo)
    have m1: "memos ?s1 ?m = Some (memo\<lparr>status := TRANSCRIBING\<rparr>)"
      using Some by (simp add: frame)
    have early: thesis if "transcriptionTry e ?m s = (Inl err, ?s1)" for err
    proof -
      from run key that m1 have "r = Inl err"
        "s' = snd (updateMemoStatus ?m FAILED (Some (''Transcription failed: '' @ message err)) ?s1)"
        by (auto simp: transcriptionWorker_def Let_def catch_found)
      with key Some show thesis using Rejected by blast
    qed
    show thesis
    proof (cases "truthy (audioStorageKey memo)")
      case False
      then have "transcriptionTry e ?m s = (Inl (Error ''No audio file available''), ?s1)"
        using Some by (auto simp: transcriptionTry_found split: option.splits)
      then show thesis by (rule early)
    next
      case True
      then obtain k where k: "audioStorageKey memo = Some k" "k \<noteq> []"
        by (cases "audioStorageKey memo") auto
      obtain r2 s2 where steps:
        "transcriptionSteps e ?m (memo\<lparr>status := TRANSCRIBING\<rparr>) k ?s1 = (r2, s2)"
        by (cases "transcriptionSteps e ?m (memo\<lparr>status := TRANSCRIBING\<rparr>) k ?s1") auto
      then have tried: "transcriptionTry e ?m s = (r2, s2)"
        using Some k by (simp add: transcriptionTry_found)
      have ne: "memos ?s1 ?m \<noteq> None" using m1 by simp
      from steps ne show thesis
      proof (cases rule: transcriptionSteps_cases)
        case (Rejected err)
        with tried show thesis using early by simp
      next
        case (NoSubscription buf result)
        then have "memos s2 ?m \<noteq> None" using m1 by (simp add: frame)
        with run key tried NoSubscription
        have "r = Inl (PrismaError ''P2025'' ''Record to update not found.'')"
          "s' = snd (updateMemoStatus ?m FAILED
                   (Some (''Transcription failed: '' @ ''Record to update not found.'')) s2)"
          by (auto simp: transcriptionWorker_def Let_def catch_found)
        with key Some NoSubscription show thesis
          using that(4) [of memo buf result] by (simp add: frame)
      next
        case (Done buf result sub)
        with run key tried have "r = Inr (resultDuration result)" "s' = s2"
          by (auto simp: transcriptionWorker_def Let_def)
        with key Some Done show thesis
          using that(5) [of memo buf result sub] by (simp add: frame)
      qed
    qed
  qed
qed


lemma generationSteps_cases:
  assumes run: "generationSteps e m memo tr s = (r, s')"
    and memo: "memos s m \<noteq> None"
  obtains (Invalid) err where "validateTranscript (transcriptText tr) = Inl err" "r = Inl err" "s' = s"
  | (Refused) err where "validateTranscript (transcriptText tr) = Inr True"
      "generateMemo e (transcriptText tr) (title memo) (participants memo) (date memo) = Inl err"
      "r = Inl err" "s' = s"
  | (Done) content where "validateTranscript (transcriptText tr) = Inr True"
      "generateMemo e (transcriptText tr) (title memo) (participants memo) (date memo) = Inr content"
      "r = Inr content"
      "s' = snd (updateMemoStatus m COMPLETED None (snd (setMemoContent m content s)))"
proof -
  obtain mm where mm: "memos s m = Some mm" using memo by auto
  show thesis
  proof (cases "validateTranscript (transcriptText tr)")
    case (Inl err)
    with run have "r = Inl err \<and> s' = s"
      by (simp add: generationSteps_def andThen_def liftResult_def)
    with Inl show thesis using Invalid by blast
  next
    case (Inr b)
    then have valid: "validateTranscript (transcriptText tr) = Inr True"
      by (auto simp: validateTranscript_def split: if_splits)
    show thesis
    proof (cases "generateMemo e (transcriptText tr) (title memo) (participants memo) (date memo)")
      case (Inl err)
      with run valid have "r = Inl err \<and> s' = s"
        by (simp add: generationSteps_def andThen_def liftResult_def)
      with Inl valid show thesis using Refused by blast
    next
      case gen: (Inr content)
      with run valid mm have "r = Inr content
          \<and> s' = snd (updateMemoStatus m COMPLETED None (snd (setMemoContent m content s)))"
        by (simp add: generationSteps_def andThen_def liftResult_def setMemoContent_def
              updateMemoStatus_def logged_def ok_def Let_def)
      with gen valid show thesis using Done by blast
    qed
  qed
qed

lemma memoGenerationTry_found:
  assumes "memos s m = Some memo"
  shows "memoGenerationTry e m s =
     (case transcripts s m of
        None \<Rightarrow> (Inl (Error ''No transcript available''), snd (updateMemoStatus m GENERATING None s))
      | Some tr \<Rightarrow>
          generationSteps e m (memo\<lparr>status := GENERATING\<rparr>) tr
            (snd (updateMemoStatus m GENERATING None s)))"
  using assms
  by (simp add: memoGenerationTry_def andThen_def updateMemoStatus_def logged_def Let_def split: option.splits)

lemma memoGenerationWorker_cases:
  assumes run: "memoGenerationWorker e job s = (r, s')"
  obtains (NoKey) "\<not> truthy (OPENAI_API_KEY e)" "s' = s"
      "r = Inl (Error ''OPENAI_API_KEY is required for memo generation service'')"
  | (NoMemo) "truthy (OPENAI_API_KEY e)" "memos s (jobMemoId job) = None" "s' = s"
      "r = Inl (NotFoundError ''Memo'')"
  | (Rejected) memo err where "truthy (OPENAI_API_KEY e)"
      "memos s (jobMemoId job) = Some memo" "r = Inl err"
      "\<forall>tr. transcripts s (jobMemoId job) = Some tr \<longrightarrow>
         validateTranscript (transcriptText tr) = Inl err \<or> validateTranscript (transcriptText tr) = Inr True"
      "s' = snd (updateMemoStatus (jobMemoId job) FAILED (Some (''Memo generation failed: '' @ message err))
              (snd (updateMemoStatus (jobMemoId job) GENERATING None s)))"
  | (Done) memo tr content where "truthy (OPENAI_API_KEY e)"
      "memos s (jobMemoId job) = Some memo" "transcripts s (jobMemoId job) = Some tr"
      "validateTranscript (transcriptText tr) = Inr True"
      "r = Inr content"
      "s' = snd (updateMemoStatus (jobMemoId job) COMPLETED None
               (snd (setMemoContent (jobMemoId job) content
                  (snd (updateMemoStatus (jobMemoId job) GENERATING None s)))))"
proof (cases "truthy (OPENAI_API_KEY e)")
  case False
  with run have "s' = s" "r = Inl (Error ''OPENAI_API_KEY is required for memo generation service'')"
    by (auto simp: memoGenerationWorker_def Let_def)
  with False show thesis using NoKey by blast
next
  case key: True
  let ?m = "jobMemoId job"
  let ?s1 = "snd (updateMemoStatus ?m GENERATING None s)"
  show thesis
  proof (cases "memos s ?m")
    case None
    then have "memoGenerationTry e ?m s = (Inl (NotFoundError ''Memo''), s)"
      by (simp add: memoGenerationTry_def andThen_def updateMemoStatus_missing)
    with run key None have "s' = s" "r = Inl (NotFoundError ''Memo'')"
      by (auto simp: memoGenerationWorker_def Let_def andThen_def updateMemoStatus_missing)
    with key None show thesis using NoMemo by blast
  next
    case (Some memo)
    have m1: "memos ?s1 ?m = Some (memo\<lparr>status := GENERATING\<rparr>)"
      using Some by (simp add: frame)
    have early: thesis
      if "memoGenerationTry e ?m s = (Inl err, ?s1)"
        and "\<forall>tr. transcripts s ?m = Some tr \<longrightarrow>
         validateTranscript (transcriptText tr) = Inl err \<or> validateTranscript (transcriptText tr) = Inr True"
      for err
    proof -
      from run key that(1) m1 have "r = Inl err"
        "s' = snd (updateMemoStatus ?m FAILED (Some (''Memo generation failed: '' @ message err)) ?s1)"
        by (auto simp: memoGenerationWorker_def Let_def catch_found)
      with key Some that(2) show thesis using Rejected by blast
    qed
    show thesis
    proof (cases "transcripts s ?m")
      case None
      then have "memoGenerationTry e ?m s = (Inl (Error ''No transcript available''), ?s1)"
        using Some by (simp add: memoGenerationTry_found frame)
      then show thesis using None by (auto intro: early)
    next
      case tr: (Some tr)
      obtain r2 s2 where steps:
        "generationSteps e ?m (memo\<lparr>status := GENERATING\<rparr>) tr ?s1 = (r2, s2)"
        by (cases "generationSteps e ?m (memo\<lparr>status := GENERATING\<rparr>) tr ?s1") auto
      then have tried: "memoGenerationTry e ?m s = (r2, s2)"
        using Some tr by (simp add: memoGenerationTry_found frame)
      have ne: "memos ?s1 ?m \<noteq> None" using m1 by simp
      from steps ne show thesis
      proof (cases rule: generationSteps_cases)
        case (Invalid err)
        with tried tr show thesis by (auto intro: early)
      next
        case (Refused err)
        with tried tr show thesis by (auto intro: early)
      next
        case (Done content)
        with run key tried have "r = Inr content" "s' = s2"
          by (auto simp: memoGenerationWorker_def Let_def)
        with key Some tr Done show thesis
          using that(4) [of memo tr content] by simp
      qed
    qed
  qed
qed





lemma transcription_keeps_transcripts:
  assumes "transcriptionWorker e job s = (r, s')" and "transcripts s k = Some t"
  shows "transcripts s' k = Some t"
  using assms by (cases rule: transcriptionWorker_cases) (auto simp: frame dom_def)

lemma generation_keeps_transcripts:
  assumes "memoGenerationWorker e job s = (r, s')"
  shows "transcripts s' = transcripts s"
  using assms by (cases rule: memoGenerationWorker_cases) (auto simp: frame)

lemma runAttempt_keeps_transcripts:
  assumes "transcripts s k = Some t"
  shows "transcripts (runAttempt a s) k = Some t"
proof (cases a)
  case (TranscriptionAttempt e job)
  then show ?thesis
    using transcription_keeps_transcripts [OF _ assms, of e job "fst (transcriptionWorker e job s)"
        "snd (transcriptionWorker e job s)"]
    by simp
next
  case (GenerationAttempt e job)
  then show ?thesis
    using generation_keeps_transcripts [of e job s "fst (memoGenerationWorker e job s)"
        "snd (memoGenerationWorker e job s)"] assms
    by simp
qed

lemma retranscription_rejected:
  assumes "transcriptionWorker e job s = (r, s')" and "transcripts s (jobMemoId job) = Some t"
  shows "isl r \<and> transcripts s' = transcripts s"
  using assms by (cases rule: transcriptionWorker_cases) (auto simp: frame dom_def)

lemma count_distinct_key:
  "distinct (map f xs) \<Longrightarrow> a \<in> f ` set xs \<Longrightarrow> length (filter (\<lambda>j. f j = a) xs) = 1"
proof (induction xs)
  case Nil
  then show ?case by simp
next
  case (Cons x xs)
  show ?case
  proof (cases "f x = a")
    case True
    then have "a \<notin> f ` set xs" using Cons.prems(1) by auto
    then have "filter (\<lambda>j. f j = a) xs = []" by (auto simp: filter_empty_conv)
    with True show ?thesis by simp
  next
    case False
    with Cons show ?thesis by auto
  qed
qed

lemma queueAdd_once:
  assumes "distinct (map jobId q)"
  shows "jobId (fst (queueAdd name m jid prio q)) = jid
     \<and> jobMemoId (fst (queueAdd name m jid prio q)) = m
     \<and> distinct (map jobId (snd (queueAdd name m jid prio q)))
     \<and> length (filter (\<lambda>j. jobId j = jid) (snd (queueAdd name m jid prio q))) = 1
     \<and> (jid \<in> jobId ` set q \<longrightarrow> snd (queueAdd name m jid prio q) = q)"
proof (cases "jid \<in> jobId ` set q")
  case True
  with assms show ?thesis by (simp add: queueAdd_def Let_def count_distinct_key)
next
  case False
  then have "filter (\<lambda>j. jobId j = jid) q = []" by (auto simp: filter_empty_conv)
  with False assms show ?thesis by (simp add: queueAdd_def Let_def)
qed

lemma all_dropWhile: "(\<forall>x \<in> set (dropWhile P xs). P x) \<longleftrightarrow> (\<forall>x \<in> set xs. P x)"
  by (induction xs) auto

lemma trim_Nil_iff: "trim t = [] \<longleftrightarrow> (\<forall>c \<in> set t. isWhiteSpace c)"
  by (simp add: trim_def dropWhile_eq_Nil_conv all_dropWhile)

lemma usageIncrements_append: "usageIncrements (xs @ ys) = usageIncrements xs @ usageIncrements ys"
  by (induction xs rule: usageIncrements.induct) auto

lemma transcription_usage:
  assumes "transcriptionWorker e job s = (r, s')" and "memos s (jobMemoId job) = Some memo"
  shows "(\<exists>memo'. memos s' (jobMemoId job) = Some memo' \<and> userId memo' = userId memo)
     \<and> (\<exists>es. history s' = history s @ es
          \<and> (case r of
                Inl err \<Rightarrow> subscriptions s' = subscriptions s \<and> usageIncrements es = []
              | Inr d \<Rightarrow>
                  usageIncrements es = [(userId memo, d)]
                  \<and> (\<exists>sub. subscriptions s (userId memo) = Some sub
                        \<and> subscriptions s' =
                            (subscriptions s)(userId memo \<mapsto> sub\<lparr>minutesUsed := minutesUsed sub + d\<rparr>))
                  \<and> measuredIn e d))"
  using assms
proof (cases rule: transcriptionWorker_cases)
  case (Done memo0 buf result sub)
  then have "measuredIn e (resultDuration result)"
    unfolding measuredIn_def by blast
  with Done assms(2) show ?thesis by (simp add: frame dom_def)
qed (auto simp: frame dom_def)

lemma generation_usage:
  assumes "memoGenerationWorker e job s = (r, s')"
  shows "subscriptions s' = subscriptions s
     \<and> (\<exists>es. history s' = history s @ es \<and> usageIncrements es = [])"
  using assms by (cases rule: memoGenerationWorker_cases) (auto simp: frame)

lemma generations_usage:
  assumes "\<forall>a \<in> set gs. isGeneration a"
  shows "subscriptions (runAttempts gs s) = subscriptions s
     \<and> (\<exists>es. history (runAttempts gs s) = history s @ es \<and> usageIncrements es = [])"
  using assms
proof (induction gs arbitrary: s)
  case Nil
  then show ?case by (simp add: runAttempts_def)
next
  case (Cons a gs)
  then obtain e job where a: "a = GenerationAttempt e job"
    by (cases a) auto
  let ?s1 = "snd (memoGenerationWorker e job s)"
  from generation_usage [of e job s "fst (memoGenerationWorker e job s)" ?s1]
  obtain es1 where 1: "subscriptions ?s1 = subscriptions s" "history ?s1 = history s @ es1"
    "usageIncrements es1 = []" by auto
  from Cons.IH [of ?s1] Cons.prems
  obtain es2 where 2: "subscriptions (runAttempts gs ?s1) = subscriptions ?s1"
    "history (runAttempts gs ?s1) = history ?s1 @ es2" "usageIncrements es2 = []" by auto
  have "runAttempts (a # gs) s = runAttempts gs ?s1" by (simp add: runAttempts_def a)
  with 1 2 show ?case by (simp add: usageIncrements_append)
qed

lemma process_usage:
  assumes "process transcriptionWorker es job s = (Completed d, s1)"
    and "memos s (jobMemoId job) = Some memo"
  shows "\<exists>sub. subscriptions s (userId memo) = Some sub
     \<and> subscriptions s1 = (subscriptions s)(userId memo \<mapsto> sub\<lparr>minutesUsed := minutesUsed sub + d\<rparr>)
     \<and> (\<exists>hs. history s1 = history s @ hs \<and> usageIncrements hs = [(userId memo, d)])
     \<and> (\<exists>e \<in> set es. measuredIn e d)"
  using assms
proof (induction es arbitrary: job s memo)
  case Nil
  then show ?case by simp
next
  case (Cons e es)
  obtain r s' where run: "transcriptionWorker e job s = (r, s')"
    by (cases "transcriptionWorker e job s") auto
  note u = transcription_usage [OF run Cons.prems(2)]
  show ?case
  proof (cases r)
    case (Inr d')
    with run Cons.prems(1) have "d' = d" "s' = s1" by simp_all
    with u Inr show ?thesis by auto
  next
    case (Inl err)
    let ?job = "job\<lparr>attemptsMade := attemptsMade job + 1\<rparr>"
    from Inl run Cons.prems(1)
    have next_run: "process transcriptionWorker es ?job s' = (Completed d, s1)"
      by (simp split: if_splits)
    from u obtain memo' where m': "memos s' (jobMemoId ?job) = Some memo'" "userId memo' = userId memo"
      by auto
    from u Inl obtain hs1 where h1: "history s' = history s @ hs1" "usageIncrements hs1 = []"
      "subscriptions s' = subscriptions s" by auto
    from Cons.IH [OF next_run m'(1)]
    have "\<exists>sub. subscriptions s' (userId memo) = Some sub
     \<and> subscriptions s1 = (subscriptions s')(userId memo \<mapsto> sub\<lparr>minutesUsed := minutesUsed sub + d\<rparr>)
     \<and> (\<exists>hs. history s1 = history s' @ hs \<and> usageIncrements hs = [(userId memo, d)])
     \<and> (\<exists>e \<in> set es. measuredIn e d)"
      unfolding m'(2) .
    then obtain sub hs2 where ih: "subscriptions s' (userId memo) = Some sub"
      "subscriptions s1 = (subscriptions s')(userId memo \<mapsto> sub\<lparr>minutesUsed := minutesUsed sub + d\<rparr>)"
      "history s1 = history s' @ hs2" "usageIncrements hs2 = [(userId memo, d)]"
      "\<exists>e \<in> set es. measuredIn e d"
      by blast
    have "history s1 = history s @ (hs1 @ hs2)" using h1 ih by simp
    moreover have "usageIncrements (hs1 @ hs2) = [(userId memo, d)]"
      using h1 ih by (simp add: usageIncrements_append)
    ultimately show ?thesis using ih h1 by (simp del: fun_upd_apply)
  qed
qed

lemma checkSubscriptionLimits_eq: "checkSubscriptionLimits uid s = (Inr (quotaLeft s uid), s)"
  by (auto simp: checkSubscriptionLimits_def quotaLeft_def split: option.splits)

section \<open>The claims\<close>

lemmas run_defs =
  memo1_def job1_def job2_def world1_def response1_def content1_def envOk_def envDown_def
  envTimeout_def envAgain_def defaultJobOptions_def
  transcriptionWorker_def transcriptionTry_def transcriptionSteps_def
  memoGenerationWorker_def memoGenerationTry_def generationSteps_def
  andThen_def updateMemoStatus_def logged_def liftResult_def throw_def ok_def Let_def
  downloadAudio_def transcribeAudio_def transcriptCreate_def updateDuration_def
  incrementUsage_def addMemoGenerationJob_def addTranscriptionJob_def queueAdd_def
  setMemoContent_def validateTranscript_def trim_def isWhiteSpace_def

subsection \<open>C1: the edges of the status ledger\<close>




subsection \<open>C2: when a failing job marks its memo\<close>




subsection \<open>C3: usage is counted once\<close>

text \<open>
  C3. When the queue runs the transcription job of a memo and the job completes, after
  any number of failed attempts, with the duration \<open>d\<close> that \<open>transcribeAudio\<close> measured in
  minutes, the subscription of the memo's owner has \<open>minutesUsed\<close> increased by \<open>d\<close>;
  and after any number of attempts of the generation worker, failed or successful, the
  subscriptions are still those and the history since the job started holds exactly one
  usage increment, of \<open>d\<close> for the owner.
\<close>

theorem C3:
  assumes "memos s (jobMemoId job) = Some memo"
    and "process transcriptionWorker es job s = (Completed d, s1)"
  shows "\<exists>sub. subscriptions s (userId memo) = Some sub
     \<and> (\<exists>e \<in> set es. measuredIn e d)
     \<and> (\<forall>gs. (\<forall>a \<in> set gs. isGeneration a) \<longrightarrow>
            subscriptions (runAttempts gs s1) =
              (subscriptions s)(userId memo \<mapsto> sub\<lparr>minutesUsed := minutesUsed sub + d\<rparr>)
            \<and> (\<exists>hs. history (runAttempts gs s1) = history s @ hs
                  \<and> usageIncrements hs = [(userId memo, d)]))"
proof -
  from process_usage [OF assms(2,1)]
  obtain sub hs1 where p: "subscriptions s (userId memo) = Some sub"
    "subscriptions s1 = (subscriptions s)(userId memo \<mapsto> sub\<lparr>minutesUsed := minutesUsed sub + d\<rparr>)"
    "history s1 = history s @ hs1" "usageIncrements hs1 = [(userId memo, d)]"
    "\<exists>e \<in> set es. measuredIn e d"
    by blast
  have "subscriptions (runAttempts gs s1) =
              (subscriptions s)(userId memo \<mapsto> sub\<lparr>minutesUsed := minutesUsed sub + d\<rparr>)
            \<and> (\<exists>hs. history (runAttempts gs s1) = history s @ hs
                  \<and> usageIncrements hs = [(userId memo, d)])"
    if g: "\<forall>a \<in> set gs. isGeneration a" for gs
  proof -
    from generations_usage [OF g, of s1]
    obtain hs2 where 2: "subscriptions (runAttempts gs s1) = subscriptions s1"
      "history (runAttempts gs s1) = history s1 @ hs2" "usageIncrements hs2 = []" by auto
    have "history (runAttempts gs s1) = history s @ (hs1 @ hs2)" using 2 p by simp
    moreover have "usageIncrements (hs1 @ hs2) = [(userId memo, d)]"
      using 2 p by (simp add: usageIncrements_append)
    ultimately show ?thesis using 2 p by simp
  qed
  with p show ?thesis by blast
qed

text \<open>
  One failed download, a transcription of 600 seconds, then three generation attempts
  that time out: the counter went from 0 to 10.
\<close>

theorem C3_witness:
  "map_option minutesUsed
     (subscriptions
        (runAttempts [GenerationAttempt envTimeout job2, GenerationAttempt envTimeout job2,
                      GenerationAttempt envTimeout job2]
           (snd (process transcriptionWorker [envDown, envOk] job1 world1))) ''u1'') = Some 10"
proof -
  have m: "memos world1 (jobMemoId job1) = Some memo1" by (simp add: world1_def job1_def)
  have p: "process transcriptionWorker [envDown, envOk] job1 world1 =
      (Completed 10, snd (process transcriptionWorker [envDown, envOk] job1 world1))"
    by (simp add: prod_eq_iff run_defs)
  have g: "\<forall>a \<in> set [GenerationAttempt envTimeout job2, GenerationAttempt envTimeout job2,
                      GenerationAttempt envTimeout job2]. isGeneration a" by simp
  have s: "subscriptions world1 ''u1'' = Some \<lparr>tier = ''FREE'', monthlyMinutes = 120, minutesUsed = 0\<rparr>"
    by (simp add: world1_def)
  have u: "userId memo1 = ''u1''" by (simp add: memo1_def)
  from C3 [OF m p] g s u show ?thesis by auto
qed

subsection \<open>C4: enqueueing a job that is already queued\<close>

text \<open>
  C4 as stated fails. \<open>queue.ts\<close> defines no \<open>AlreadyQueued\<close> error and makes no check of
  its own: the transcription job of memo \<open>m1\<close> is in the queue, a second
  \<open>addTranscriptionJob\<close> for \<open>m1\<close> returns the job, and the queue is as before.
\<close>

theorem C4_counterexample:
  "job1 \<in> set (transcriptionQueue world1)
   \<and> fst (addTranscriptionJob ''m1'' world1) = Inr job1
   \<and> transcriptionQueue (snd (addTranscriptionJob ''m1'' world1)) = [job1]"
  by (simp add: run_defs)

text \<open>
  C4, amended. The job id is \<open>transcribe-\<close> or \<open>generate-\<close> followed by the memo id.
  In a queue that holds one job per id, either helper returns the job with that id and
  raises no error; afterwards the queue still holds one job per id and exactly one job
  with that id, and it is unchanged when a job with that id was already in it.
\<close>

theorem C4_amended:
  assumes "distinct (map jobId (transcriptionQueue s))"
    and "distinct (map jobId (memoGenerationQueue s))"
  shows "(\<exists>job. fst (addTranscriptionJob m s) = Inr job \<and> jobId job = ''transcribe-'' @ m
            \<and> jobMemoId job = m)
       \<and> distinct (map jobId (transcriptionQueue (snd (addTranscriptionJob m s))))
       \<and> length (filter (\<lambda>j. jobId j = ''transcribe-'' @ m)
                   (transcriptionQueue (snd (addTranscriptionJob m s)))) = 1
       \<and> (''transcribe-'' @ m \<in> jobId ` set (transcriptionQueue s) \<longrightarrow>
            transcriptionQueue (snd (addTranscriptionJob m s)) = transcriptionQueue s)
       \<and> (\<exists>job. fst (addMemoGenerationJob m s) = Inr job \<and> jobId job = ''generate-'' @ m
            \<and> jobMemoId job = m)
       \<and> distinct (map jobId (memoGenerationQueue (snd (addMemoGenerationJob m s))))
       \<and> length (filter (\<lambda>j. jobId j = ''generate-'' @ m)
                   (memoGenerationQueue (snd (addMemoGenerationJob m s)))) = 1
       \<and> (''generate-'' @ m \<in> jobId ` set (memoGenerationQueue s) \<longrightarrow>
            memoGenerationQueue (snd (addMemoGenerationJob m s)) = memoGenerationQueue s)"
proof -
  note t = queueAdd_once [OF assms(1), of "''transcribe-audio''" m "''transcribe-'' @ m" 1]
  note g = queueAdd_once [OF assms(2), of "''generate-memo''" m "''generate-'' @ m" 2]
  have "fst (addTranscriptionJob m s)
          = Inr (fst (queueAdd ''transcribe-audio'' m (''transcribe-'' @ m) 1 (transcriptionQueue s)))"
    "transcriptionQueue (snd (addTranscriptionJob m s))
          = snd (queueAdd ''transcribe-audio'' m (''transcribe-'' @ m) 1 (transcriptionQueue s))"
    "fst (addMemoGenerationJob m s)
          = Inr (fst (queueAdd ''generate-memo'' m (''generate-'' @ m) 2 (memoGenerationQueue s)))"
    "memoGenerationQueue (snd (addMemoGenerationJob m s))
          = snd (queueAdd ''generate-memo'' m (''generate-'' @ m) 2 (memoGenerationQueue s))"
    by (simp_all add: addTranscriptionJob_def addMemoGenerationJob_def logged_def split: prod.splits)
  with t g show ?thesis by simp
qed

theorem C4_witness:
  "length (filter (\<lambda>j. jobId j = ''transcribe-m1'')
             (transcriptionQueue (snd (addTranscriptionJob ''m1'' world1)))) = 1
   \<and> transcriptionQueue (snd (addTranscriptionJob ''m1'' world1)) = transcriptionQueue world1"
proof -
  have d: "distinct (map jobId (transcriptionQueue world1))"
    "distinct (map jobId (memoGenerationQueue world1))"
    by (simp_all add: world1_def)
  have i: "''transcribe-'' @ ''m1'' \<in> jobId ` set (transcriptionQueue world1)"
    by (simp add: world1_def job1_def)
  from C4_amended [OF d, of "''m1''"]
  have a: "length (filter (\<lambda>j. jobId j = ''transcribe-m1'')
             (transcriptionQueue (snd (addTranscriptionJob ''m1'' world1)))) = 1"
    by simp
  from C4_amended [OF d, of "''m1''"] i
  have b: "transcriptionQueue (snd (addTranscriptionJob ''m1'' world1)) = transcriptionQueue world1"
    by simp
  from a b show ?thesis by blast
qed

subsection \<open>C5: the order of the effects of a successful transcription\<close>

text \<open>
  C5 as stated fails. The successful attempt writes \<open>TRANSCRIBING\<close>, the transcript,
  the duration and the usage, and then enqueues the generation job: no status is
  written between the transcript and the job, and the memo is still \<open>TRANSCRIBING\<close>
  when the generation job is in its queue.
\<close>

theorem C5_counterexample:
  "fst (transcriptionWorker envOk job1 world1) = Inr 10
   \<and> history (snd (transcriptionWorker envOk job1 world1)) =
       [StatusWrite ''m1'' UPLOADING TRANSCRIBING, TranscriptCreate ''m1'', DurationUpdate ''m1'' 600,
        UsageIncrement ''u1'' 10, JobAdd ''memo-generation'' ''generate-m1'']
   \<and> map_option status (memos (snd (transcriptionWorker envOk job1 world1)) ''m1'') = Some TRANSCRIBING
   \<and> map jobId (memoGenerationQueue (snd (transcriptionWorker envOk job1 world1))) = [''generate-m1'']"
  by (simp add: run_defs)

text \<open>
  C5, amended. Every successful execution of the transcription worker has exactly these
  effects, in this order: the status \<open>TRANSCRIBING\<close>, the transcript, the duration in
  seconds, the usage in minutes, the generation job. The memo is \<open>TRANSCRIBING\<close> when the
  job is enqueued; the status \<open>GENERATING\<close> is the first write of the generation worker
  when it runs that job.
\<close>

theorem C5_amended:
  assumes "transcriptionWorker e job s = (Inr d, s')"
  shows "\<exists>memo. memos s (jobMemoId job) = Some memo
           \<and> history s' = history s @
               [StatusWrite (jobMemoId job) (status memo) TRANSCRIBING,
                TranscriptCreate (jobMemoId job),
                DurationUpdate (jobMemoId job) (d * 60),
                UsageIncrement (userId memo) d,
                JobAdd ''memo-generation'' (''generate-'' @ jobMemoId job)]
           \<and> map_option status (memos s' (jobMemoId job)) = Some TRANSCRIBING
           \<and> (\<forall>e' job' r s''. memoGenerationWorker e' job' s' = (r, s'') \<longrightarrow>
                  truthy (OPENAI_API_KEY e') \<longrightarrow> jobMemoId job' = jobMemoId job \<longrightarrow>
                  (\<exists>rest. history s'' = history s' @
                     StatusWrite (jobMemoId job) TRANSCRIBING GENERATING # rest))"
  using assms
proof (cases rule: transcriptionWorker_cases)
  case (Done memo buf result sub)
  have st: "memos s' (jobMemoId job) = Some (memo\<lparr>status := TRANSCRIBING, duration := Some (d * 60)\<rparr>)"
    using Done by (simp add: frame dom_def)
  have gen: "\<exists>rest. history s'' = history s' @ StatusWrite (jobMemoId job) TRANSCRIBING GENERATING # rest"
    if "memoGenerationWorker e' job' s' = (r, s'')" "truthy (OPENAI_API_KEY e')"
      "jobMemoId job' = jobMemoId job" for e' job' r s''
    using that(1)
    by (cases rule: memoGenerationWorker_cases) (use that(2,3) st in \<open>auto simp: frame\<close>)
  show ?thesis
    using Done st gen by (simp add: frame dom_def)
qed simp_all

theorem C5_witness:
  "\<exists>memo. memos world1 (jobMemoId job1) = Some memo
      \<and> history (snd (transcriptionWorker envOk job1 world1)) = history world1 @
               [StatusWrite (jobMemoId job1) (status memo) TRANSCRIBING,
                TranscriptCreate (jobMemoId job1),
                DurationUpdate (jobMemoId job1) (10 * 60),
                UsageIncrement (userId memo) 10,
                JobAdd ''memo-generation'' (''generate-'' @ jobMemoId job1)]"
proof -
  have r: "transcriptionWorker envOk job1 world1 = (Inr 10, snd (transcriptionWorker envOk job1 world1))"
    by (simp add: prod_eq_iff run_defs)
  from C5_amended [OF r] show ?thesis by blast
qed

subsection \<open>C6: the transcript of a memo\<close>

text \<open>
  C6 as stated fails. The memo has its transcript of sixty letters; transcription runs
  again and the provider returns ninety letters. \<open>transcript.create\<close> is rejected, the
  attempt fails, the memo is \<open>FAILED\<close>, and the stored transcript is the first one.
\<close>

theorem C6_counterexample:
  "map_option transcriptText (transcripts world2 ''m1'') = Some (replicate 60 0x61)
   \<and> fst (transcriptionWorker envAgain job1 world2)
       = Inl (PrismaError ''P2002'' ''Unique constraint failed on the fields: (memoId)'')
   \<and> map_option transcriptText (transcripts (snd (transcriptionWorker envAgain job1 world2)) ''m1'')
       = Some (replicate 60 0x61)
   \<and> map_option status (memos (snd (transcriptionWorker envAgain job1 world2)) ''m1'') = Some FAILED"
  by (simp add: world2_def run_defs)

text \<open>
  C6, amended. No attempt of either worker changes or removes a transcript that
  exists, so a memo's transcript is created at most once and never mutated; a
  transcription attempt for a memo that already has a transcript fails and leaves the
  transcripts as they are.
\<close>

theorem C6_amended:
  "(transcripts s k = Some t \<longrightarrow> transcripts (runAttempts as s) k = Some t)
   \<and> (transcripts s (jobMemoId job) = Some t \<longrightarrow>
        isl (fst (transcriptionWorker e job s))
        \<and> transcripts (snd (transcriptionWorker e job s)) = transcripts s)"
proof (intro conjI impI)
  assume "transcripts s k = Some t"
  then show "transcripts (runAttempts as s) k = Some t"
  proof (induction as arbitrary: s)
    case Nil
    then show ?case by (simp add: runAttempts_def)
  next
    case (Cons a as)
    from Cons.IH [OF runAttempt_keeps_transcripts [OF Cons.prems, of a]]
    show ?case by (simp add: runAttempts_def)
  qed
next
  assume t: "transcripts s (jobMemoId job) = Some t"
  show "isl (fst (transcriptionWorker e job s))"
    using retranscription_rejected [OF _ t, of e "fst (transcriptionWorker e job s)"
        "snd (transcriptionWorker e job s)"] by simp
  show "transcripts (snd (transcriptionWorker e job s)) = transcripts s"
    using retranscription_rejected [OF _ t, of e "fst (transcriptionWorker e job s)"
        "snd (transcriptionWorker e job s)"] by simp
qed

theorem C6_witness:
  "map_option transcriptText
     (transcripts (runAttempts [TranscriptionAttempt envAgain job1, GenerationAttempt envOk job2] world2)
        ''m1'') = Some (replicate 60 0x61)
   \<and> isl (fst (transcriptionWorker envAgain job1 world2))"
proof -
  have t: "transcripts world2 ''m1'' =
      Some \<lparr>transcriptText = replicate 60 0x61,
            transcriptSegments = [\<lparr>segId = 0, segStart = 0, segEnd = 600, segText = replicate 60 0x61\<rparr>],
            transcriptLanguage = ''en''\<rparr>"
    by (simp add: world2_def run_defs)
  have j: "jobMemoId job1 = ''m1''" by (simp add: job1_def)
  from C6_amended [of world2 "''m1''" _ _ job1 envAgain] t j
  show ?thesis by simp
qed

subsection \<open>C7: the quota check when a memo is created\<close>

text \<open>
  C7. \<open>POST /\<close> checks the subscription before it creates anything. A caller without
  quota left (no subscription, or \<open>minutesUsed \<ge> monthlyMinutes\<close>) leaves the state as it
  is, no memo and no job, and a well-formed request of such a caller is answered 403
  \<open>SUBSCRIPTION_LIMIT_EXCEEDED\<close>. A well-formed request of a caller with quota left, with
  a date that is not in the future, creates the memo under the id the database
  generates, with status \<open>UPLOADING\<close>, and enqueues nothing.
\<close>

theorem C7:
  "(\<not> quotaLeft s uid \<longrightarrow>
      snd (postMemo e uid body s) = s
      \<and> (parseCreateMemoBody body = Inr body \<longrightarrow>
           fst (postMemo e uid body s) =
             Inr (Reply 403 (ErrorBody ''SUBSCRIPTION_LIMIT_EXCEEDED''
                    ''Monthly minutes limit exceeded. Please upgrade your plan.''))))
   \<and> (quotaLeft s uid \<and> parseCreateMemoBody body = Inr body \<and> dateAccepted e body
        \<and> newId e \<notin> dom (memos s) \<longrightarrow>
        (\<exists>memo s'. postMemo e uid body s = (Inr (Reply 201 (MemoBody memo)), s')
           \<and> status memo = UPLOADING \<and> userId memo = uid
           \<and> memos s' = (memos s)(newId e \<mapsto> memo)
           \<and> history s' = history s @ [MemoCreate (newId e)]
           \<and> transcriptionQueue s' = transcriptionQueue s
           \<and> memoGenerationQueue s' = memoGenerationQueue s))"
proof (intro conjI impI)
  assume "\<not> quotaLeft s uid"
  then show "snd (postMemo e uid body s) = s"
    by (cases "parseCreateMemoBody body")
      (simp_all add: postMemo_def andThen_def liftResult_def checkSubscriptionLimits_eq ok_def)
next
  assume "\<not> quotaLeft s uid" and "parseCreateMemoBody body = Inr body"
  then show "fst (postMemo e uid body s) =
             Inr (Reply 403 (ErrorBody ''SUBSCRIPTION_LIMIT_EXCEEDED''
                    ''Monthly minutes limit exceeded. Please upgrade your plan.''))"
    by (simp add: postMemo_def andThen_def liftResult_def checkSubscriptionLimits_eq ok_def)
next
  assume a: "quotaLeft s uid \<and> parseCreateMemoBody body = Inr body \<and> dateAccepted e body
        \<and> newId e \<notin> dom (memos s)"
  then obtain t where t: "bodyTitle body = Some t" "t \<noteq> []" "bodyDate body \<noteq> BadDate"
    by (auto simp: parseCreateMemoBody_def split: option.splits if_splits)
  from a t have d: "dateOk (now e) (case bodyDate body of IsoDate d \<Rightarrow> Date d | _ \<Rightarrow> Date (now e))"
    by (cases "bodyDate body") (simp_all add: dateAccepted_def)
  from a t d
  show "\<exists>memo s'. postMemo e uid body s = (Inr (Reply 201 (MemoBody memo)), s')
           \<and> status memo = UPLOADING \<and> userId memo = uid
           \<and> memos s' = (memos s)(newId e \<mapsto> memo)
           \<and> history s' = history s @ [MemoCreate (newId e)]
           \<and> transcriptionQueue s' = transcriptionQueue s
           \<and> memoGenerationQueue s' = memoGenerationQueue s"
    by (simp add: postMemo_def andThen_def liftResult_def checkSubscriptionLimits_eq ok_def
          createMemo_def logged_def Let_def dom_def)
qed

theorem C7_witness:
  "(\<exists>memo s'. postMemo envOk ''u1'' body1 world1 = (Inr (Reply 201 (MemoBody memo)), s')
       \<and> status memo = UPLOADING \<and> memos s' = (memos world1)(''m2'' \<mapsto> memo))
   \<and> postMemo envOk ''u2'' body1 world1 =
       (Inr (Reply 403 (ErrorBody ''SUBSCRIPTION_LIMIT_EXCEEDED''
               ''Monthly minutes limit exceeded. Please upgrade your plan.'')), world1)"
proof -
  have p: "parseCreateMemoBody body1 = Inr body1"
    by (simp add: parseCreateMemoBody_def body1_def)
  have q1: "quotaLeft world1 ''u1'' \<and> dateAccepted envOk body1 \<and> newId envOk \<notin> dom (memos world1)"
    by (simp add: quotaLeft_def dateAccepted_def world1_def body1_def envOk_def)
  have q2: "\<not> quotaLeft world1 ''u2''"
    by (simp add: quotaLeft_def world1_def)
  have n: "newId envOk = ''m2''" by (simp add: envOk_def)
  from C7 [of world1 "''u1''" envOk body1] p q1 n
  have 1: "\<exists>memo s'. postMemo envOk ''u1'' body1 world1 = (Inr (Reply 201 (MemoBody memo)), s')
       \<and> status memo = UPLOADING \<and> memos s' = (memos world1)(''m2'' \<mapsto> memo)"
    by (simp del: fun_upd_apply) blast
  from C7 [of world1 "''u2''" envOk body1] p q2
  have 2: "postMemo envOk ''u2'' body1 world1 =
       (Inr (Reply 403 (ErrorBody ''SUBSCRIPTION_LIMIT_EXCEEDED''
               ''Monthly minutes limit exceeded. Please upgrade your plan.'')), world1)"
    by (simp add: prod_eq_iff)
  from 1 2 show ?thesis by blast
qed

subsection \<open>C8: uploading audio to a memo\<close>

text \<open>
  C8. For a memo that exists and is not \<open>UPLOADING\<close>, \<open>POST /:memoId/audio\<close> leaves
  the state as it is, no audio stored and no job enqueued, and answers its owner 400
  \<open>INVALID_STATUS\<close>. The state changes only for the owner of a memo that is
  \<open>UPLOADING\<close>; there, with a file within the size limit and S3 accepting it, the audio is
  stored under its key, the memo gets the URL and the key, and the transcription job of
  the memo is in its queue.
\<close>

theorem C8:
  assumes "memos s memoId = Some memo"
  shows "(status memo \<noteq> UPLOADING \<longrightarrow>
            snd (postAudio e uid memoId upload s) = s
            \<and> (userId memo = uid \<longrightarrow>
                 fst (postAudio e uid memoId upload s) =
                   Inr (Reply 400 (ErrorBody ''INVALID_STATUS''
                          ''Audio can only be uploaded for memos in UPLOADING status''))))
       \<and> (snd (postAudio e uid memoId upload s) \<noteq> s \<longrightarrow>
            status memo = UPLOADING \<and> userId memo = uid)
       \<and> (status memo = UPLOADING \<and> userId memo = uid \<and> upload = Some f
            \<and> length (fileBytes f) \<le> 100 * 1024 * 1024 \<and> \<not> s3PutFails e \<longrightarrow>
            (\<exists>s'. postAudio e uid memoId upload s =
                 (Inr (Reply 200 (AudioBody ''Audio uploaded successfully. Transcription started.''
                         (audioUrlOf e (audioKey e memoId)))), s')
               \<and> bucket s' = (bucket s)(audioKey e memoId \<mapsto> fileBytes f)
               \<and> memos s' = (memos s)(memoId \<mapsto> memo\<lparr>audioUrl := Some (audioUrlOf e (audioKey e memoId)),
                                                      audioStorageKey := Some (audioKey e memoId)\<rparr>)
               \<and> ''transcribe-'' @ memoId \<in> jobId ` set (transcriptionQueue s')))"
proof -
  have stranger: "postAudio e uid memoId upload s =
      (Inl (AuthorizationError ''You do not have access to this memo''), s)"
    if "userId memo \<noteq> uid"
    using that assms by (simp add: postAudio_def getMemo_def andThen_def)
  have g: "getMemo memoId uid s = (Inr (memo, transcripts s memoId), s)" if "userId memo = uid"
    using that assms by (simp add: getMemo_def)
  have 1: "postAudio e uid memoId upload s =
              (Inr (Reply 400 (ErrorBody ''INVALID_STATUS''
                      ''Audio can only be uploaded for memos in UPLOADING status'')), s)"
    if "status memo \<noteq> UPLOADING" "userId memo = uid"
    using that g by (simp add: postAudio_def andThen_def ok_def)
  have same: "snd (postAudio e uid memoId upload s) = s"
    if "status memo \<noteq> UPLOADING \<or> userId memo \<noteq> uid"
    using that 1 stranger by (cases "userId memo = uid") auto
  have 2: "status memo = UPLOADING \<and> userId memo = uid"
    if "snd (postAudio e uid memoId upload s) \<noteq> s"
    using that same by blast
  have 3: "\<exists>s'. postAudio e uid memoId upload s =
                 (Inr (Reply 200 (AudioBody ''Audio uploaded successfully. Transcription started.''
                         (audioUrlOf e (audioKey e memoId)))), s')
               \<and> bucket s' = (bucket s)(audioKey e memoId \<mapsto> fileBytes f)
               \<and> memos s' = (memos s)(memoId \<mapsto> memo\<lparr>audioUrl := Some (audioUrlOf e (audioKey e memoId)),
                                                      audioStorageKey := Some (audioKey e memoId)\<rparr>)
               \<and> ''transcribe-'' @ memoId \<in> jobId ` set (transcriptionQueue s')"
    if "status memo = UPLOADING \<and> userId memo = uid \<and> upload = Some f
            \<and> length (fileBytes f) \<le> 100 * 1024 * 1024 \<and> \<not> s3PutFails e"
    using that g assms(1)
    by (simp add: postAudio_def andThen_def ok_def liftResult_def toBuffer_def uploadAudio_def
          setAudioUrl_def addTranscriptionJob_def queueAdd_def logged_def Let_def
          del: fun_upd_apply)
  from 1 have inv: "fst (postAudio e uid memoId upload s) =
                   Inr (Reply 400 (ErrorBody ''INVALID_STATUS''
                          ''Audio can only be uploaded for memos in UPLOADING status''))"
    if "status memo \<noteq> UPLOADING" "userId memo = uid"
    using that by simp
  from inv same 2 3 show ?thesis by blast
qed

theorem C8_witness:
  "postAudio envOk ''u1'' ''m1'' (Some upload1) world2 =
     (Inr (Reply 400 (ErrorBody ''INVALID_STATUS''
             ''Audio can only be uploaded for memos in UPLOADING status'')), world2)
   \<and> (\<exists>s'. postAudio envOk ''u1'' ''m1'' (Some upload1) world0 =
         (Inr (Reply 200 (AudioBody ''Audio uploaded successfully. Transcription started.''
                 ''https://audio.s3.eu.amazonaws.com/memos/m1/audio-1000.mp3'')), s')
       \<and> bucket s' ''memos/m1/audio-1000.mp3'' = Some [7, 7]
       \<and> ''transcribe-m1'' \<in> jobId ` set (transcriptionQueue s'))"
proof -
  have m2: "memos world2 ''m1'' = Some (memo1\<lparr>status := TRANSCRIBING, duration := Some 600\<rparr>)"
    by (simp add: world2_def run_defs)
  have u: "userId (memo1\<lparr>status := TRANSCRIBING, duration := Some 600\<rparr>) = ''u1''"
    "status (memo1\<lparr>status := TRANSCRIBING, duration := Some 600\<rparr>) \<noteq> UPLOADING"
    by (simp_all add: memo1_def)
  from C8 [OF m2, of envOk "''u1''" "Some upload1"] u
  have 1: "postAudio envOk ''u1'' ''m1'' (Some upload1) world2 =
     (Inr (Reply 400 (ErrorBody ''INVALID_STATUS''
             ''Audio can only be uploaded for memos in UPLOADING status'')), world2)"
    by (simp add: prod_eq_iff)
  have m0: "memos world0 ''m1'' = Some (memo1\<lparr>audioUrl := None, audioStorageKey := None\<rparr>)"
    by (simp add: world0_def)
  have h: "status (memo1\<lparr>audioUrl := None, audioStorageKey := None\<rparr>) = UPLOADING
     \<and> userId (memo1\<lparr>audioUrl := None, audioStorageKey := None\<rparr>) = ''u1''
     \<and> Some upload1 = Some upload1
     \<and> length (fileBytes upload1) \<le> 100 * 1024 * 1024 \<and> \<not> s3PutFails envOk"
    by (simp add: memo1_def upload1_def envOk_def)
  have k: "audioKey envOk ''m1'' = ''memos/m1/audio-1000.mp3''"
    "audioUrlOf envOk ''memos/m1/audio-1000.mp3'' = ''https://audio.s3.eu.amazonaws.com/memos/m1/audio-1000.mp3''"
    "fileBytes upload1 = [7, 7]"
    by (simp_all add: audioKey_def audioUrlOf_def envOk_def upload1_def)
  from C8 [OF m0, of envOk "''u1''" "Some upload1" upload1] h
  have "\<exists>s'. postAudio envOk ''u1'' ''m1'' (Some upload1) world0 =
                 (Inr (Reply 200 (AudioBody ''Audio uploaded successfully. Transcription started.''
                         (audioUrlOf envOk (audioKey envOk ''m1'')))), s')
               \<and> bucket s' = (bucket world0)(audioKey envOk ''m1'' \<mapsto> fileBytes upload1)
               \<and> memos s' = (memos world0)(''m1'' \<mapsto> memo1\<lparr>audioUrl := None, audioStorageKey := None\<rparr>
                    \<lparr>audioUrl := Some (audioUrlOf envOk (audioKey envOk ''m1'')),
                     audioStorageKey := Some (audioKey envOk ''m1'')\<rparr>)
               \<and> ''transcribe-'' @ ''m1'' \<in> jobId ` set (transcriptionQueue s')"
    by blast
  then have 2: "\<exists>s'. postAudio envOk ''u1'' ''m1'' (Some upload1) world0 =
         (Inr (Reply 200 (AudioBody ''Audio uploaded successfully. Transcription started.''
                 ''https://audio.s3.eu.amazonaws.com/memos/m1/audio-1000.mp3'')), s')
       \<and> bucket s' ''memos/m1/audio-1000.mp3'' = Some [7, 7]
       \<and> ''transcribe-m1'' \<in> jobId ` set (transcriptionQueue s')"
    unfolding k by auto
  from 1 2 show ?thesis by blast
qed

subsection \<open>C9: a status update without an error message\<close>

text \<open>
  C9. A call of \<open>updateMemoStatus\<close> without an error message, or with the empty string,
  on a memo that exists, writes the status and nothing else: the memo keeps its
  \<open>errorMessage\<close> whatever the new status is, and the transcripts, the subscriptions,
  the queues and the bucket are as before.
\<close>

theorem C9:
  assumes "err = None \<or> err = Some []"
    and "memos s memoId = Some memo"
    and "updateMemoStatus memoId st err s = (r, s')"
  shows "r = Inr (memo\<lparr>status := st\<rparr>)
         \<and> memos s' = (memos s)(memoId \<mapsto> memo\<lparr>status := st\<rparr>)
         \<and> map_option errorMessage (memos s' memoId) = Some (errorMessage memo)
         \<and> transcripts s' = transcripts s \<and> subscriptions s' = subscriptions s
         \<and> transcriptionQueue s' = transcriptionQueue s
         \<and> memoGenerationQueue s' = memoGenerationQueue s \<and> bucket s' = bucket s"
  using assms by (auto simp: updateMemoStatus_def logged_def Let_def)

text \<open>The memo failed with a message; setting it to \<open>COMPLETED\<close> keeps the message.\<close>

theorem C9_witness:
  "map_option status (memos world3 ''m1'') = Some FAILED
   \<and> map_option errorMessage (memos (snd (updateMemoStatus ''m1'' COMPLETED None world3)) ''m1'')
       = Some (Some ''Transcription failed: Failed to download audio file'')
   \<and> map_option status (memos (snd (updateMemoStatus ''m1'' COMPLETED None world3)) ''m1'')
       = Some COMPLETED"
proof -
  have m: "memos world3 ''m1'' =
      Some (memo1\<lparr>status := FAILED,
                  errorMessage := Some ''Transcription failed: Failed to download audio file''\<rparr>)"
    by (simp add: world3_def run_defs)
  have e: "(None :: string option) = None \<or> (None :: string option) = Some []" by simp
  from C9 [OF e m, of COMPLETED "fst (updateMemoStatus ''m1'' COMPLETED None world3)"
      "snd (updateMemoStatus ''m1'' COMPLETED None world3)"] m
  show ?thesis by simp
qed

subsection \<open>C10: the transcript the generation stage accepts\<close>

text \<open>
  C10. \<open>validateTranscript\<close> returns \<open>true\<close> exactly for the transcripts that are not
  empty after trimming and whose length is between 50 and 100000, and throws a
  \<open>ValidationError\<close> for every other one; when it throws in the generation worker, the
  attempt fails with that error and the memo is set to \<open>FAILED\<close> with its message.
\<close>

theorem C10:
  "(trim t \<noteq> [] \<and> 50 \<le> length t \<and> length t \<le> 100000 \<longrightarrow> validateTranscript t = Inr True)
   \<and> (\<not> (trim t \<noteq> [] \<and> 50 \<le> length t \<and> length t \<le> 100000)
        \<longrightarrow> (\<exists>msg. validateTranscript t = Inl (ValidationError msg)))
   \<and> (truthy (OPENAI_API_KEY e) \<and> memos s (jobMemoId job) = Some memo
        \<and> transcripts s (jobMemoId job) = Some tr
        \<and> validateTranscript (transcriptText tr) = Inl err
        \<longrightarrow> fst (memoGenerationWorker e job s) = Inl err
          \<and> memos (snd (memoGenerationWorker e job s)) =
              (memos s)(jobMemoId job \<mapsto> memo\<lparr>status := FAILED,
                 errorMessage := Some (''Memo generation failed: '' @ message err)\<rparr>))"
proof (intro conjI impI)
  assume "trim t \<noteq> [] \<and> 50 \<le> length t \<and> length t \<le> 100000"
  then show "validateTranscript t = Inr True"
    by (auto simp: validateTranscript_def)
next
  assume "\<not> (trim t \<noteq> [] \<and> 50 \<le> length t \<and> length t \<le> 100000)"
  then show "\<exists>msg. validateTranscript t = Inl (ValidationError msg)"
    by (auto simp: validateTranscript_def trim_def)
next
  assume a: "truthy (OPENAI_API_KEY e) \<and> memos s (jobMemoId job) = Some memo
        \<and> transcripts s (jobMemoId job) = Some tr
        \<and> validateTranscript (transcriptText tr) = Inl err"
  obtain r s' where run: "memoGenerationWorker e job s = (r, s')"
    by (cases "memoGenerationWorker e job s") auto
  from run have "r = Inl err \<and> memos s' = (memos s)(jobMemoId job \<mapsto> memo\<lparr>status := FAILED,
                 errorMessage := Some (''Memo generation failed: '' @ message err)\<rparr>)"
    by (cases rule: memoGenerationWorker_cases) (use a in \<open>auto simp: frame\<close>)
  with run show "fst (memoGenerationWorker e job s) = Inl err"
    and "memos (snd (memoGenerationWorker e job s)) =
              (memos s)(jobMemoId job \<mapsto> memo\<lparr>status := FAILED,
                 errorMessage := Some (''Memo generation failed: '' @ message err)\<rparr>)"
    by simp_all
qed

text \<open>Fifty letters pass; forty-nine letters and fifty spaces do not.\<close>

theorem C10_witness:
  "validateTranscript (replicate 50 0x61) = Inr True
   \<and> (\<exists>msg. validateTranscript (replicate 49 0x61) = Inl (ValidationError msg))
   \<and> (\<exists>msg. validateTranscript (replicate 50 0x20) = Inl (ValidationError msg))"
proof -
  have a: "trim (replicate 50 0x61) \<noteq> []"
    by (simp add: trim_Nil_iff isWhiteSpace_def)
  have b: "trim (replicate 50 0x20) = []"
    by (simp add: trim_Nil_iff isWhiteSpace_def)
  from C10 [of "replicate 50 0x61"] a have 1: "validateTranscript (replicate 50 0x61) = Inr True"
    by simp
  from C10 [of "replicate 49 0x61"]
  have 2: "\<exists>msg. validateTranscript (replicate 49 0x61) = Inl (ValidationError msg)"
    by simp
  from C10 [of "replicate 50 0x20"] b
  have 3: "\<exists>msg. validateTranscript (replicate 50 0x20) = Inl (ValidationError msg)"
    by simp
  from 1 2 3 show ?thesis by blast
qed

end
